theory Spec2Isabelle
  imports Complex_Main "HOL-Library.AList"
begin

section \<open>JavaScript values as the handlers see them\<close>

text \<open>
  The payloads the routes build and return are JSON documents. The numbers the code
  writes into them are integers (lamports, counters, chart samples), so a JSON number
  carries an \<open>int\<close>.
\<close>

datatype json =
    JNull
  | JBool bool
  | JNum int
  | JStr string
  | JArr "json list"
  | JObj "(string \<times> json) list"

datatype js_error =
    SyntaxError
  | TypeError
  | RangeError
  | LibraryError string
  | Error string

text \<open>
  A promise or call that either yields a value or throws: \<open>Inl\<close> is the thrown error.
\<close>

type_synonym 'a thrown = "js_error + 'a"

datatype 'a js_property = Own 'a | Inherited string | Undefined

text \<open>
  JavaScript truthiness of the values the code tests with \<open>!\<close>, \<open>&&\<close> and \<open>||\<close>:
  \<open>null\<close>/\<open>undefined\<close> (here \<open>None\<close>), the empty string and the number 0 are falsy.
\<close>

definition truthy_str :: "string option \<Rightarrow> bool" where
  "truthy_str v = (case v of None \<Rightarrow> False | Some s \<Rightarrow> s \<noteq> [])"

definition or_str :: "string option \<Rightarrow> string \<Rightarrow> string" where
  "or_str v d = (case v of None \<Rightarrow> d | Some s \<Rightarrow> if s \<noteq> [] then s else d)"

definition or_number :: "int option \<Rightarrow> int \<Rightarrow> int" where
  "or_number v d = (case v of None \<Rightarrow> d | Some n \<Rightarrow> if n \<noteq> 0 then n else d)"

definition or_prop :: "'a js_property \<Rightarrow> 'a js_property \<Rightarrow> 'a js_property" where
  "or_prop v d = (case v of Undefined \<Rightarrow> d | _ \<Rightarrow> v)"

text \<open>\<open>c?.f\<close>: the field of an object that may be \<open>null\<close> or \<open>undefined\<close>.\<close>

definition opt_field :: "'c option \<Rightarrow> ('c \<Rightarrow> 'a option) \<Rightarrow> 'a option" where
  "opt_field c f = (case c of None \<Rightarrow> None | Some r \<Rightarrow> f r)"

text \<open>\<open>String(v)\<close> of a string that may be \<open>undefined\<close>, as a template literal or a
  computed property key converts it.\<close>

definition String_opt :: "string option \<Rightarrow> string" where
  "String_opt v = (case v of None \<Rightarrow> ''undefined'' | Some s \<Rightarrow> s)"

text \<open>
  Reading a property of an object literal by a computed key. The literal's own
  properties come first; a key it does not own is looked up on \<open>Object.prototype\<close>,
  whose members (functions, and the prototype object itself under \<open>__proto__\<close>) are all
  truthy; any other key gives \<open>undefined\<close>.
\<close>

definition Object_prototype :: "string list" where
  "Object_prototype =
     [''constructor'', ''__defineGetter__'', ''__defineSetter__'', ''hasOwnProperty'',
      ''__lookupGetter__'', ''__lookupSetter__'', ''isPrototypeOf'',
      ''propertyIsEnumerable'', ''toString'', ''valueOf'', ''__proto__'',
      ''toLocaleString'']"

definition js_get :: "(string \<times> 'a) list \<Rightarrow> string \<Rightarrow> 'a js_property" where
  "js_get obj key =
     (case map_of obj key of
        Some v \<Rightarrow> Own v
      | None \<Rightarrow> if key \<in> set Object_prototype then Inherited key else Undefined)"

text \<open>Decimal text of a number, as \<open>String(n)\<close> and template literals produce it.\<close>

definition digit_char :: "nat \<Rightarrow> char" where
  "digit_char d = ''0123456789'' ! d"

fun String_nat :: "nat \<Rightarrow> string" where
  "String_nat n =
     (if n < 10 then [digit_char n] else String_nat (n div 10) @ [digit_char (n mod 10)])"

declare String_nat.simps [simp del]

definition String_int :: "int \<Rightarrow> string" where
  "String_int n = (if n < 0 then CHR ''-'' # String_nat (nat (- n)) else String_nat (nat n))"

text \<open>
  \<open>Array.from({ length: n }, f)\<close>: the length is clamped to \<open>0 .. 2^53 - 1\<close>, and
  constructing an array longer than \<open>2^32 - 1\<close> throws a \<open>RangeError\<close>.
\<close>

definition ToLength :: "int \<Rightarrow> int" where
  "ToLength n = (if n \<le> 0 then 0 else min n (2 ^ 53 - 1))"

definition Array_from :: "int \<Rightarrow> (nat \<Rightarrow> 'a) \<Rightarrow> 'a list thrown" where
  "Array_from n f =
     (let len = ToLength n
      in if len > 2 ^ 32 - 1 then Inl RangeError else Inr (map f [0..<nat len]))"

text \<open>
  An object literal some of whose properties may be \<open>undefined\<close>; serialising it
  (\<open>JSON.stringify\<close>, which \<open>NextResponse.json\<close> applies) leaves those out.
\<close>

definition obj :: "(string \<times> json option) list \<Rightarrow> json" where
  "obj props = JObj (List.map_filter (\<lambda>(k, v). map_option (Pair k) v) props)"

text \<open>
  \<open>x.toFixed(1)\<close>: the nearest multiple of one tenth, the larger one on a tie, in
  decimal with one fractional digit.
\<close>

definition toFixed1 :: "real \<Rightarrow> string" where
  "toFixed1 x =
     (let n = nat \<lfloor>\<bar>x\<bar> * 10 + 1 / 2\<rfloor>;
          digits = String_nat (n div 10) @ ''.'' @ String_nat (n mod 10)
      in if x < 0 then CHR ''-'' # digits else digits)"

section \<open>Configuration (\<open>lib/x402-config.ts\<close>)\<close>

record x402_config =
  payTo :: string
  network :: string
  rpcEndpoint :: string
  facilitatorUrl :: string
  asset :: string
  baseUrl :: string
  prices :: "(string \<times> int) list"

text \<open>The configuration object, given the process environment it reads.\<close>

definition x402Config :: "(string \<rightharpoonup> string) \<Rightarrow> x402_config" where
  "x402Config process_env =
     \<lparr> payTo = ''8MeWTYDip5SWVJf3wkvDKZw9BjSAWMXm5oAeELJ6HFM9'',
       network = or_str (process_env ''NEXT_PUBLIC_SOLANA_NETWORK'') ''mainnet-beta'',
       rpcEndpoint =
         or_str (process_env ''NEXT_PUBLIC_SOLANA_RPC'') ''https://api.mainnet-beta.solana.com'',
       facilitatorUrl =
         or_str (process_env ''NEXT_PUBLIC_X402_FACILITATOR_URL'')
           ''https://facilitator.payai.network'',
       asset = ''SOL'',
       baseUrl = or_str (process_env ''NEXT_PUBLIC_BASE_URL'') ''https://grid.wtf'',
       prices =
         [(''/api/render-ui'', 500000),
          (''/api/premium-ui'', 500000),
          (''https://grid.wtf/api/x402/v1/new-markets'', 500000)] \<rparr>"

section \<open>Template generators (\<open>generateUI\<close>, \<open>generatePremiumUI\<close>)\<close>

text \<open>
  \<open>UIConfig\<close> is the untagged union of \<open>GridConfig\<close>, \<open>CardConfig\<close> and the empty
  \<open>DashboardConfig\<close>; the generators read its fields through casts, so a configuration
  is one object with every field optional. Numbers are taken integral.
\<close>

record ui_config =
  columns :: "int option"
  gap :: "int option"
  itemCount :: "int option"
  title :: "string option"
  content :: "string option"
  actions :: "json list option"

definition grid_item :: "nat \<Rightarrow> json" where
  "grid_item i =
     JObj [(''id'', JNum (int i + 1)),
           (''title'', JStr (''Grid Item '' @ String_nat (i + 1))),
           (''description'', JStr ''This is a dynamically rendered grid item''),
           (''color'', JStr (''hsl('' @ String_nat ((i * 60) mod 360) @ '', 70%, 50%)''))]"

definition grid_template :: "ui_config option \<Rightarrow> json list \<Rightarrow> json" where
  "grid_template config items =
     JObj [(''type'', JStr ''grid''),
           (''layout'',
            JObj [(''columns'', JNum (or_number (opt_field config columns) 3)),
                  (''gap'', JNum (or_number (opt_field config gap) 4)),
                  (''items'', JArr items)])]"

definition card_template :: "ui_config option \<Rightarrow> json" where
  "card_template config =
     JObj [(''type'', JStr ''card''),
           (''title'', JStr (or_str (opt_field config title) ''Dynamic Card'')),
           (''content'',
            JStr (or_str (opt_field config content)
                    ''This is a dynamically rendered card component'')),
           (''actions'',
            JArr (case opt_field config actions of
                    Some acts \<Rightarrow> acts
                  | None \<Rightarrow>
                      [JObj [(''label'', JStr ''Action 1''), (''variant'', JStr ''primary'')],
                       JObj [(''label'', JStr ''Action 2''), (''variant'', JStr ''secondary'')]]))]"

definition stat_widget :: "string \<Rightarrow> string \<Rightarrow> string \<Rightarrow> json" where
  "stat_widget l v t =
     JObj [(''type'', JStr ''stat''), (''label'', JStr l), (''value'', JStr v), (''trend'', JStr t)]"

definition dashboard_template :: json where
  "dashboard_template =
     JObj [(''type'', JStr ''dashboard''),
           (''widgets'',
            JArr [stat_widget ''Total Users'' ''1,234'' ''+12%'',
                  stat_widget ''Revenue'' ''$45.6K'' ''+8%'',
                  stat_widget ''Conversions'' ''89%'' ''+3%'',
                  JObj [(''type'', JStr ''chart''), (''label'', JStr ''Activity''),
                        (''data'', JArr (map JNum [30, 40, 35, 50, 49, 60, 70]))]])]"

text \<open>
  The three templates are built on every call, whatever \<open>componentType\<close> is, so the
  grid's \<open>Array.from\<close> can throw for any request.
\<close>

definition generateUI :: "string \<Rightarrow> ui_config option \<Rightarrow> json js_property thrown" where
  "generateUI componentType config =
     (case Array_from (or_number (opt_field config itemCount) 6) grid_item of
        Inl e \<Rightarrow> Inl e
      | Inr items \<Rightarrow>
          (let uiTemplates =
                 [(''grid'', grid_template config items),
                  (''card'', card_template config),
                  (''dashboard'', dashboard_template)]
           in Inr (or_prop (js_get uiTemplates componentType) (js_get uiTemplates ''grid''))))"

text \<open>
  \<open>generatePremiumUI\<close> calls \<open>Math.random()\<close>. The generator of the process is a
  sequence of numbers, \<open>Math_random k\<close> being the \<open>k\<close>-th one it yields, and the state
  that survives a call is how many have been drawn. The advanced grid draws one number
  per item, then the data table two per row (value, then status).
\<close>

definition advanced_grid_item :: "(nat \<Rightarrow> real) \<Rightarrow> nat \<Rightarrow> nat \<Rightarrow> json" where
  "advanced_grid_item Math_random drawn i =
     JObj [(''id'', JNum (int i + 1)),
           (''title'', JStr (''Premium Item '' @ String_nat (i + 1))),
           (''description'', JStr ''Premium UI with advanced features''),
           (''image'', JStr (''https://picsum.photos/seed/'' @ String_nat (i + 1) @ ''/400/300'')),
           (''color'', JStr (''hsl('' @ String_nat ((i * 30) mod 360) @ '', 80%, 60%)'')),
           (''features'', JArr [JStr ''Feature A'', JStr ''Feature B'', JStr ''Feature C'']),
           (''rating'', JStr (toFixed1 (4 + Math_random (drawn + i))))]"

definition advanced_grid_template :: "ui_config option \<Rightarrow> json list \<Rightarrow> json" where
  "advanced_grid_template config items =
     JObj [(''type'', JStr ''advanced-grid''),
           (''layout'',
            JObj [(''columns'', JNum (or_number (opt_field config columns) 4)),
                  (''rows'', JStr ''auto''),
                  (''gap'', JNum 6),
                  (''items'', JArr items)]),
           (''animations'', JBool True),
           (''interactions'', JArr [JStr ''hover'', JStr ''click'', JStr ''drag''])]"

definition data_column :: "string \<Rightarrow> string \<Rightarrow> string \<Rightarrow> json" where
  "data_column k l flag = JObj [(''key'', JStr k), (''label'', JStr l), (flag, JBool True)]"

definition data_row :: "(nat \<Rightarrow> real) \<Rightarrow> nat \<Rightarrow> nat \<Rightarrow> json" where
  "data_row Math_random drawn i =
     obj [(''id'', Some (JNum (int i + 1))),
          (''name'', Some (JStr (''Record '' @ String_nat (i + 1)))),
          (''value'', Some (JNum \<lfloor>Math_random (drawn + 2 * i) * 10000\<rfloor>)),
          (''status'',
           (let k = \<lfloor>Math_random (drawn + 2 * i + 1) * 3\<rfloor>
            in if 0 \<le> k \<and> k < 3
               then Some (JStr ([''Active'', ''Pending'', ''Inactive''] ! nat k))
               else None))]"

definition data_table_template :: "json list \<Rightarrow> json" where
  "data_table_template rows =
     JObj [(''type'', JStr ''data-table''),
           (''columns'',
            JArr [data_column ''id'' ''ID'' ''sortable'',
                  data_column ''name'' ''Name'' ''sortable'',
                  data_column ''value'' ''Value'' ''sortable'',
                  data_column ''status'' ''Status'' ''filterable'']),
           (''data'', JArr rows),
           (''features'',
            JArr [JStr ''sorting'', JStr ''filtering'', JStr ''pagination'', JStr ''export''])]"

definition metric_widget :: "string \<Rightarrow> string \<Rightarrow> string \<Rightarrow> json" where
  "metric_widget l v c =
     JObj [(''type'', JStr ''metric''), (''label'', JStr l), (''value'', JStr v),
           (''change'', JStr c)]"

definition chart :: "string \<Rightarrow> string \<Rightarrow> json" where
  "chart t l = JObj [(''type'', JStr t), (''label'', JStr l), (''data'', JArr [])]"

definition analytics_template :: json where
  "analytics_template =
     JObj [(''type'', JStr ''analytics-dashboard''),
           (''sections'',
            JArr [JObj [(''title'', JStr ''Key Metrics''),
                        (''widgets'',
                         JArr [metric_widget ''Total Revenue'' ''$123,456'' ''+23.5%'',
                               metric_widget ''Active Users'' ''8,765'' ''+12.3%'',
                               metric_widget ''Conversion Rate'' ''3.45%'' ''+0.8%'',
                               metric_widget ''Avg. Order Value'' ''$89.23'' ''+5.2%''])],
                  JObj [(''title'', JStr ''Performance Charts''),
                        (''charts'',
                         JArr [chart ''line'' ''Revenue Trend'',
                               chart ''bar'' ''User Growth'',
                               chart ''pie'' ''Traffic Sources''])]])]"

text \<open>
  The result is the value returned (or the error thrown) and the number of draws made
  so far. A \<open>RangeError\<close> of the first \<open>Array.from\<close> comes before any draw.
\<close>

definition generatePremiumUI ::
  "(nat \<Rightarrow> real) \<Rightarrow> nat \<Rightarrow> string \<Rightarrow> ui_config option \<Rightarrow> json js_property thrown \<times> nat"
where
  "generatePremiumUI Math_random drawn componentType config =
     (case Array_from (or_number (opt_field config itemCount) 12)
             (advanced_grid_item Math_random drawn) of
        Inl e \<Rightarrow> (Inl e, drawn)
      | Inr items \<Rightarrow>
          (let drawn1 = drawn + length items in
           case Array_from 20 (data_row Math_random drawn1) of
             Inl e \<Rightarrow> (Inl e, drawn1)
           | Inr rows \<Rightarrow>
               (let premiumTemplates =
                      [(''advanced-grid'', advanced_grid_template config items),
                       (''data-table'', data_table_template rows),
                       (''analytics'', analytics_template)]
                in (Inr (or_prop (js_get premiumTemplates componentType)
                           (js_get premiumTemplates ''advanced-grid'')),
                    drawn1 + 2 * length rows))))"

section \<open>What the routes call outside this repository\<close>

text \<open>
  A confirmed transaction as \<open>connection.getTransaction\<close> returns it: its metadata
  (possibly \<open>null\<close>), and what \<open>tx.transaction.message.getAccountKeys()\<close> gives, the
  static account keys or an exception. Public keys are kept in their base-58 text.
\<close>

record tx_meta =
  err :: "string option"
  preBalances :: "int list"
  postBalances :: "int list"

record transaction_response =
  meta :: "tx_meta option"
  staticAccountKeys :: "string list thrown"

record verification =
  isValid :: bool
  invalidReason :: "string option"

text \<open>The argument of \<open>x402.createPaymentRequirements\<close>.\<close>

record route_config =
  amount :: string
  asset_address :: string
  decimals :: nat
  price_network :: string
  description :: string
  resource :: string

text \<open>
  The payment library (\<open>X402PaymentHandler\<close>), the Solana client, the process
  environment, the random number generator and the clock. Each call that can throw
  returns a \<open>thrown\<close> value. Payment requirements are an opaque JSON document.
\<close>

record externals =
  process_env :: "string \<rightharpoonup> string"
  extractPayment :: "(string \<rightharpoonup> string) \<Rightarrow> string option"
  createPaymentRequirements :: "route_config \<Rightarrow> json thrown"
  create402Response :: "json \<Rightarrow> nat \<times> (string \<times> json) list"
  verifyPayment :: "string \<Rightarrow> json \<Rightarrow> verification thrown"
  settlePayment :: "string \<Rightarrow> json \<Rightarrow> json thrown"
  Connection :: "string \<Rightarrow> string thrown"
  getTransaction :: "string \<Rightarrow> string \<Rightarrow> transaction_response option thrown"
  PublicKey :: "string \<Rightarrow> string thrown"
  Math_random :: "nat \<Rightarrow> real"
  Date_now :: int

section \<open>Requests and responses\<close>

record render_body =
  componentType :: "string option"
  config :: "ui_config option"

text \<open>
  A request to a render route: its headers as \<open>req.headers.get\<close> reads them, and what
  \<open>req.json()\<close> gives: a thrown error, \<open>null\<close>, or an object with the two fields the
  handler destructures, at the types the generators declare.
\<close>

record request =
  headers :: "string \<rightharpoonup> string"
  json_body :: "render_body option thrown"

record http_response =
  status :: nat
  body :: json
  response_headers :: "(string \<times> string) list"

definition NextResponse_json :: "json \<Rightarrow> nat \<Rightarrow> (string \<times> string) list \<Rightarrow> http_response" where
  "NextResponse_json b s hs = \<lparr> status = s, body = b, response_headers = hs \<rparr>"

text \<open>\<open>{ ...base, k1: v1, ... }\<close>: the later properties replace those of the same name.\<close>

definition spread :: "(string \<times> json) list \<Rightarrow> (string \<times> json) list \<Rightarrow> (string \<times> json) list" where
  "spread base props = foldl (\<lambda>acc (k, v). AList.update k v acc) base props"

text \<open>
  How a value read from a template table serialises as a property of the response: a
  function is left out, \<open>Object.prototype\<close> itself is the empty object.
\<close>

definition serialise_property :: "json js_property \<Rightarrow> json option" where
  "serialise_property p =
     (case p of
        Own v \<Rightarrow> Some v
      | Inherited k \<Rightarrow> if k = ''__proto__'' then Some (JObj []) else None
      | Undefined \<Rightarrow> None)"

definition startsWith :: "string \<Rightarrow> string \<Rightarrow> bool" where
  "startsWith s p = (take (length p) s = p)"

fun findIndex :: "('a \<Rightarrow> bool) \<Rightarrow> 'a list \<Rightarrow> nat option" where
  "findIndex P [] = None"
| "findIndex P (x # xs) = (if P x then Some 0 else map_option Suc (findIndex P xs))"

text \<open>\<open>xs[i]\<close>, \<open>undefined\<close> out of range.\<close>

definition at_index :: "'a list \<Rightarrow> nat \<Rightarrow> 'a option" where
  "at_index xs i = (if i < length xs then Some (xs ! i) else None)"

section \<open>The gated routes (\<open>api/render-ui/route.ts\<close>, \<open>api/premium-ui/route.ts\<close>)\<close>

text \<open>
  The manual check of the custom header triple: the body of the inner \<open>try\<close>, whose
  \<open>catch\<close> leaves \<open>verified\<close> false. A balance read out of range is \<open>undefined\<close>,
  the difference then \<open>NaN\<close>, and the comparison false. For the configured price the
  product \<open>expectedAmount * 0.95\<close> is the exact number 475000.
\<close>

definition verifyCustomPayment ::
  "externals \<Rightarrow> x402_config \<Rightarrow> int \<Rightarrow> string \<Rightarrow> string \<Rightarrow> bool"
where
  "verifyCustomPayment X cfg expectedAmount customSignature customPublicKey =
     (case Connection X (rpcEndpoint cfg) of
        Inl e \<Rightarrow> False
      | Inr connection \<Rightarrow>
     (case getTransaction X connection customSignature of
        Inl e \<Rightarrow> False
      | Inr None \<Rightarrow> False
      | Inr (Some tx) \<Rightarrow>
          if opt_field (meta tx) err \<noteq> None then False
          else
     (case PublicKey X customPublicKey of
        Inl e \<Rightarrow> False
      | Inr senderPubkey \<Rightarrow>
     (case PublicKey X (payTo cfg) of
        Inl e \<Rightarrow> False
      | Inr recipientPubkey \<Rightarrow>
     (case staticAccountKeys tx of
        Inl e \<Rightarrow> False
      | Inr accountKeys \<Rightarrow>
     (case (findIndex (\<lambda>key. key = recipientPubkey) accountKeys, meta tx) of
        (Some recipientIndex, Some m) \<Rightarrow>
          (case (at_index (postBalances m) recipientIndex,
                 at_index (preBalances m) recipientIndex) of
             (Some post, Some pre) \<Rightarrow>
               (let amountTransferred = post - pre
                in real_of_int amountTransferred \<ge> real_of_int expectedAmount * 0.95)
           | _ \<Rightarrow> False)
      | _ \<Rightarrow> False))))))"

text \<open>
  The two route files are the same text up to the price key and path, the description
  prefix, the generator, and the success body (the premium one adds \<open>tier\<close>).
\<close>

record route =
  path :: string
  description_prefix :: string
  generate :: "(nat \<Rightarrow> real) \<Rightarrow> nat \<Rightarrow> string \<Rightarrow> ui_config option \<Rightarrow> json js_property thrown \<times> nat"
  tier :: "string option"
  message :: string

definition render_ui :: route where
  "render_ui =
     \<lparr> path = ''/api/render-ui'',
       description_prefix = ''Basic UI Component Render - '',
       generate = (\<lambda>Math_random drawn componentType config.
                     (generateUI componentType config, drawn)),
       tier = None,
       message = ''UI rendered successfully'' \<rparr>"

definition premium_ui :: route where
  "premium_ui =
     \<lparr> path = ''/api/premium-ui'',
       description_prefix = ''Premium UI Component Render - '',
       generate = generatePremiumUI,
       tier = Some ''premium'',
       message = ''Premium UI rendered successfully'' \<rparr>"

text \<open>\<open>x402Config.prices[key]\<close> for one of the keys written in the configuration.\<close>

definition price :: "x402_config \<Rightarrow> string \<Rightarrow> int" where
  "price cfg key = (case map_of (prices cfg) key of Some n \<Rightarrow> n | None \<Rightarrow> 0)"

text \<open>
  The steps a handler execution goes through, in the order it takes them, and what an
  execution leaves behind: the response, the steps, and the number of random draws
  made in the process so far.
\<close>

datatype step =
    ExtractPayment
  | ParseBody
  | BuildRequirements
  | Create402
  | VerifyStandard
  | VerifyCustom
  | GenerateTemplate
  | SettlePayment
  | Respond nat

record outcome =
  returned :: http_response
  steps :: "step list"
  drawn_after :: nat

definition respond :: "http_response \<Rightarrow> step list \<Rightarrow> nat \<Rightarrow> outcome" where
  "respond r so_far drawn =
     \<lparr> returned = r, steps = so_far @ [Respond (status r)], drawn_after = drawn \<rparr>"

text \<open>The outer \<open>catch\<close>.\<close>

definition internal_error :: "step list \<Rightarrow> nat \<Rightarrow> outcome" where
  "internal_error so_far drawn =
     respond (NextResponse_json (JObj [(''error'', JStr ''Internal server error'')]) 500 [])
       so_far drawn"

definition payment_required_body :: "x402_config \<Rightarrow> route \<Rightarrow> (string \<times> json) list \<Rightarrow> json" where
  "payment_required_body cfg R library_body =
     JObj (spread library_body
             [(''paymentRequired'', JBool True),
              (''price'', JNum (price cfg (path R))),
              (''network'', JStr ''solana''),
              (''asset'', JStr ''SOL''),
              (''payTo'', JStr (payTo cfg))])"

definition success_body :: "route \<Rightarrow> json js_property \<Rightarrow> json" where
  "success_body R ui =
     obj ([(''success'', Some (JBool True)), (''ui'', serialise_property ui)]
          @ (case tier R of None \<Rightarrow> [] | Some t \<Rightarrow> [(''tier'', Some (JStr t))])
          @ [(''message'', Some (JStr (message R)))])"

definition hasCustomPayment :: "request \<Rightarrow> bool" where
  "hasCustomPayment req =
     (truthy_str (headers req ''X-Payment-Signature'')
      \<and> truthy_str (headers req ''X-Payment-PublicKey'')
      \<and> truthy_str (headers req ''X-Payment-Timestamp''))"

text \<open>Step 4 of the handler: \<open>verified\<close>, or the exception of the library call.\<close>

definition verify_step ::
  "route \<Rightarrow> externals \<Rightarrow> x402_config \<Rightarrow> request \<Rightarrow> json \<Rightarrow> bool thrown \<times> step list"
where
  "verify_step R X cfg req paymentRequirements =
     (let paymentHeader = extractPayment X (headers req);
          customSignature = headers req ''X-Payment-Signature'';
          customPublicKey = headers req ''X-Payment-PublicKey''
      in if truthy_str paymentHeader then
           (case verifyPayment X (String_opt paymentHeader) paymentRequirements of
              Inl e \<Rightarrow> (Inl e, [VerifyStandard])
            | Inr verificationResult \<Rightarrow> (Inr (isValid verificationResult), [VerifyStandard]))
         else if hasCustomPayment req then
           (Inr (verifyCustomPayment X cfg (price cfg (path R))
                   (String_opt customSignature) (String_opt customPublicKey)),
            [VerifyCustom])
         else (Inr False, []))"

text \<open>Steps 5 to 7, reached with \<open>verified\<close> true.\<close>

definition deliver ::
  "route \<Rightarrow> externals \<Rightarrow> nat \<Rightarrow> request \<Rightarrow> render_body \<Rightarrow> json \<Rightarrow> step list \<Rightarrow> outcome"
where
  "deliver R X drawn req b paymentRequirements so_far =
     (let paymentHeader = extractPayment X (headers req) in
      case generate R (Math_random X) drawn (String_opt (componentType b)) (config b) of
        (Inl e, drawn') \<Rightarrow> internal_error (so_far @ [GenerateTemplate]) drawn'
      | (Inr uiResponse, drawn') \<Rightarrow>
          if truthy_str paymentHeader then
            (case settlePayment X (String_opt paymentHeader) paymentRequirements of
               Inl e \<Rightarrow> internal_error (so_far @ [GenerateTemplate, SettlePayment]) drawn'
             | Inr settled \<Rightarrow>
                 respond
                   (NextResponse_json (success_body R uiResponse) 200
                      [(''X-X402-Protected'', ''true''), (''X-Payment-Verified'', ''true'')])
                   (so_far @ [GenerateTemplate, SettlePayment]) drawn')
          else
            respond
              (NextResponse_json (success_body R uiResponse) 200
                 [(''X-X402-Protected'', ''true''), (''X-Payment-Verified'', ''true'')])
              (so_far @ [GenerateTemplate]) drawn')"

text \<open>Step 3: the argument the handler gives \<open>x402.createPaymentRequirements\<close>.\<close>

definition requirements_request :: "x402_config \<Rightarrow> route \<Rightarrow> render_body \<Rightarrow> route_config" where
  "requirements_request cfg R b =
     (let resourceUrl =
            (if startsWith (baseUrl cfg) ''http'' then baseUrl cfg
             else ''https://'' @ baseUrl cfg)
      in \<lparr> amount = String_int (price cfg (path R)),
           asset_address = ''So11111111111111111111111111111111111111112'',
           decimals = 9,
           price_network = ''solana'',
           description = description_prefix R @ String_opt (componentType b),
           resource = resourceUrl @ path R \<rparr>)"

definition POST :: "route \<Rightarrow> externals \<Rightarrow> nat \<Rightarrow> request \<Rightarrow> outcome" where
  "POST R X drawn req =
     (let cfg = x402Config (process_env X);
          paymentHeader = extractPayment X (headers req)
      in case json_body req of
           Inl e \<Rightarrow> internal_error [ExtractPayment, ParseBody] drawn
         | Inr None \<Rightarrow> internal_error [ExtractPayment, ParseBody] drawn
         | Inr (Some b) \<Rightarrow>
             (case createPaymentRequirements X (requirements_request cfg R b) of
                Inl e \<Rightarrow> internal_error [ExtractPayment, ParseBody, BuildRequirements] drawn
              | Inr paymentRequirements \<Rightarrow>
                  if \<not> truthy_str paymentHeader \<and> \<not> hasCustomPayment req then
                    (case create402Response X paymentRequirements of
                       (library_status, library_body) \<Rightarrow>
                         respond
                           (NextResponse_json (payment_required_body cfg R library_body)
                              library_status
                              [(''X-X402-Protected'', ''true''),
                               (''X-Payment-Required'', ''true'')])
                           [ExtractPayment, ParseBody, BuildRequirements, Create402] drawn)
                  else
                    (case verify_step R X cfg req paymentRequirements of
                       (Inl e, verifying) \<Rightarrow>
                         internal_error
                           ([ExtractPayment, ParseBody, BuildRequirements] @ verifying) drawn
                     | (Inr verified, verifying) \<Rightarrow>
                         if \<not> verified then
                           respond
                             (NextResponse_json
                                (JObj [(''error'', JStr ''Invalid payment - verification failed'')])
                                402 [])
                             ([ExtractPayment, ParseBody, BuildRequirements] @ verifying) drawn
                         else
                           deliver R X drawn req b paymentRequirements
                             ([ExtractPayment, ParseBody, BuildRequirements] @ verifying))))"

definition POST_render_ui :: "externals \<Rightarrow> nat \<Rightarrow> request \<Rightarrow> outcome" where
  "POST_render_ui = POST render_ui"

definition POST_premium_ui :: "externals \<Rightarrow> nat \<Rightarrow> request \<Rightarrow> outcome" where
  "POST_premium_ui = POST premium_ui"

section \<open>Payment verification (\<open>lib/solana-payment.ts\<close>, \<open>api/verify-payment/route.ts\<close>)\<close>

text \<open>
  \<open>verifyPaymentTransaction(signature, connection, _expectedAmount, _expectedRecipient)\<close>.
  The route passes as expected amount whatever its price lookup gave.
\<close>

definition verifyPaymentTransaction ::
  "externals \<Rightarrow> string \<Rightarrow> string \<Rightarrow> int js_property \<Rightarrow> string \<Rightarrow> bool"
where
  "verifyPaymentTransaction X signature connection expectedAmount expectedRecipient =
     (case getTransaction X connection signature of
        Inl e \<Rightarrow> False
      | Inr None \<Rightarrow> False
      | Inr (Some transaction) \<Rightarrow>
          (case meta transaction of
             None \<Rightarrow> False
           | Some m \<Rightarrow> if err m \<noteq> None then False else True))"

record verify_body =
  signature :: "string option"
  publicKey :: "string option"
  endpoint :: "string option"

record verify_request =
  verify_json_body :: "verify_body option thrown"

text \<open>Truthiness of a looked-up price: a number other than 0, or an inherited member.\<close>

definition truthy_price :: "int js_property \<Rightarrow> bool" where
  "truthy_price p = (case p of Own n \<Rightarrow> n \<noteq> 0 | Inherited k \<Rightarrow> True | Undefined \<Rightarrow> False)"

text \<open>
  The handler of \<open>/api/verify-payment\<close>. Beside the response it reports the
  signatures it looked up on chain.
\<close>

definition POST_verify_payment :: "externals \<Rightarrow> verify_request \<Rightarrow> http_response \<times> string list" where
  "POST_verify_payment X request =
     (let cfg = x402Config (process_env X);
          failed = NextResponse_json (JObj [(''error'', JStr ''Verification failed'')]) 500 []
      in case verify_json_body request of
           Inl e \<Rightarrow> (failed, [])
         | Inr None \<Rightarrow> (failed, [])
         | Inr (Some b) \<Rightarrow>
             if \<not> (truthy_str (signature b) \<and> truthy_str (publicKey b)
                   \<and> truthy_str (endpoint b))
             then (NextResponse_json (JObj [(''error'', JStr ''Missing required fields'')]) 400 [], [])
             else
               (let expectedPrice = js_get (prices cfg) (String_opt (endpoint b)) in
                if \<not> truthy_price expectedPrice
                then (NextResponse_json (JObj [(''error'', JStr ''Invalid endpoint'')]) 400 [], [])
                else
                  (case Connection X (rpcEndpoint cfg) of
                     Inl e \<Rightarrow> (failed, [])
                   | Inr connection \<Rightarrow>
                       (let isValid =
                              verifyPaymentTransaction X (String_opt (signature b)) connection
                                expectedPrice (payTo cfg)
                        in if isValid then
                             (NextResponse_json
                                (JObj [(''verified'', JBool True),
                                       (''message'', JStr ''Payment verified successfully''),
                                       (''signature'', JStr (String_opt (signature b))),
                                       (''timestamp'', JNum (Date_now X))])
                                200 [],
                              [String_opt (signature b)])
                           else
                             (NextResponse_json
                                (JObj [(''verified'', JBool False),
                                       (''error'', JStr ''Payment verification failed'')])
                                402 [],
                              [String_opt (signature b)])))))"

section \<open>The client (\<open>lib/x402-client.ts\<close>)\<close>

text \<open>A payment proof; its timestamp is a JavaScript number.\<close>

record payment_proof =
  proof_signature :: string
  proof_publicKey :: string
  proof_timestamp :: real

text \<open>
  \<open>RequestInit\<close> with its headers as a plain object; \<open>init_other\<close> holds every other
  property of the object. A fetched response carries its status, what
  \<open>response.json()\<close> gives, and the rest of it untouched.
\<close>

record request_init =
  init_method :: "string option"
  init_headers :: "(string \<times> string) list option"
  init_body :: "string option"
  init_other :: "(string \<times> json) list"

record 'p fetch_response =
  fetch_status :: nat
  fetch_json :: "json thrown"
  payload :: 'p

text \<open>
  The network answers the \<open>k\<close>-th \<open>fetch\<close> of a call by \<open>net k url options\<close>. The result
  lists the requests made beside what the promise settles to.
\<close>

record 'p fetched =
  settled :: "'p fetch_response thrown"
  requests :: "(string \<times> request_init option) list"

text \<open>
  \<open>x.toString()\<close> of a number. An integer below \<open>2^53\<close> in absolute value prints as its
  decimal digits. Any other number (a fraction; a larger magnitude, printed with the
  fewest digits that read back as the same double, in exponent notation from \<open>10^21\<close>)
  is printed by the runtime, whose formatting is a parameter.
\<close>

definition Number_toString :: "(real \<Rightarrow> string) \<Rightarrow> real \<Rightarrow> string" where
  "Number_toString runtime x =
     (if x = real_of_int \<lfloor>x\<rfloor> \<and> \<bar>x\<bar> < 2 ^ 53 then String_int \<lfloor>x\<rfloor> else runtime x)"

text \<open>\<open>...options?.headers\<close> and the other properties \<open>...options\<close> spreads.\<close>

definition given_headers :: "request_init option \<Rightarrow> (string \<times> string) list" where
  "given_headers options = (case opt_field options init_headers of None \<Rightarrow> [] | Some hs \<Rightarrow> hs)"

definition given_other :: "request_init option \<Rightarrow> (string \<times> json) list" where
  "given_other options = (case options of None \<Rightarrow> [] | Some init \<Rightarrow> init_other init)"

definition spread_headers :: "(string \<times> string) list \<Rightarrow> (string \<times> string) list \<Rightarrow> (string \<times> string) list" where
  "spread_headers base props = foldl (\<lambda>acc (k, v). AList.update k v acc) base props"

definition retry_options ::
  "(real \<Rightarrow> string) \<Rightarrow> request_init option \<Rightarrow> payment_proof \<Rightarrow> request_init"
where
  "retry_options runtime options proof =
     \<lparr> init_method = opt_field options init_method,
       init_headers =
         Some (spread_headers (given_headers options)
                 [(''X-Payment-Signature'', proof_signature proof),
                  (''X-Payment-PublicKey'', proof_publicKey proof),
                  (''X-Payment-Timestamp'', Number_toString runtime (proof_timestamp proof))]),
       init_body = opt_field options init_body,
       init_other = given_other options \<rparr>"

definition fetchWithPayment ::
  "(real \<Rightarrow> string) \<Rightarrow> (nat \<Rightarrow> string \<Rightarrow> request_init option \<Rightarrow> 'p fetch_response thrown)
   \<Rightarrow> string \<Rightarrow> request_init option \<Rightarrow> (json \<Rightarrow> payment_proof option thrown) option
   \<Rightarrow> 'p fetched"
where
  "fetchWithPayment runtime net url options onPaymentRequired =
     (case net 0 url options of
        Inl e \<Rightarrow> \<lparr> settled = Inl e, requests = [(url, options)] \<rparr>
      | Inr response \<Rightarrow>
          if fetch_status response = 402 then
            (case fetch_json response of
               Inl e \<Rightarrow> \<lparr> settled = Inl e, requests = [(url, options)] \<rparr>
             | Inr paymentDetails \<Rightarrow>
                 (case onPaymentRequired of
                    None \<Rightarrow>
                      \<lparr> settled = Inl (Error ''Payment required but no payment handler provided''),
                        requests = [(url, options)] \<rparr>
                  | Some handler \<Rightarrow>
                      (case handler paymentDetails of
                         Inl e \<Rightarrow> \<lparr> settled = Inl e, requests = [(url, options)] \<rparr>
                       | Inr None \<Rightarrow>
                           \<lparr> settled =
                               Inl (Error ''Payment required but no payment handler provided''),
                             requests = [(url, options)] \<rparr>
                       | Inr (Some proof) \<Rightarrow>
                           \<lparr> settled = net 1 url (Some (retry_options runtime options proof)),
                             requests =
                               [(url, options),
                                (url, Some (retry_options runtime options proof))] \<rparr>)))
          else \<lparr> settled = Inr response, requests = [(url, options)] \<rparr>)"

section \<open>The renderer (\<open>components/ui-renderer.tsx\<close>)\<close>

text \<open>
  \<open>UIRenderer\<close> returns \<open>null\<close>, a fragment of two component elements (a renderer
  applied to the payload, and the signature link), or the fallback \<open>div\<close>.
\<close>

datatype element =
    GridRenderer json
  | CardRenderer json
  | DashboardRenderer json
  | AdvancedGridRenderer json
  | DataTableRenderer json
  | AnalyticsDashboardRenderer json
  | MarketsRenderer json
  | SignatureLink "string option"

datatype rendering = Null | Fragment "element list" | Div string

record ui_response =
  ui :: "json option"

definition truthy_json :: "json option \<Rightarrow> bool" where
  "truthy_json v =
     (case v of
        None \<Rightarrow> False
      | Some JNull \<Rightarrow> False
      | Some (JBool b) \<Rightarrow> b
      | Some (JNum n) \<Rightarrow> n \<noteq> 0
      | Some (JStr s) \<Rightarrow> s \<noteq> []
      | Some _ \<Rightarrow> True)"

text \<open>\<open>ui.type\<close>, when it is a string.\<close>

definition type_of :: "json \<Rightarrow> string option" where
  "type_of v =
     (case v of
        JObj props \<Rightarrow> (case map_of props ''type'' of Some (JStr t) \<Rightarrow> Some t | _ \<Rightarrow> None)
      | _ \<Rightarrow> None)"

definition UIRenderer :: "ui_response option \<Rightarrow> string option \<Rightarrow> rendering" where
  "UIRenderer uiData sig =
     (if \<not> truthy_json (opt_field uiData ui) then Null
      else
        (case opt_field uiData ui of
           None \<Rightarrow> Null
         | Some u \<Rightarrow>
             (let t = type_of u in
              if t = Some ''grid'' then Fragment [GridRenderer u, SignatureLink sig]
              else if t = Some ''card'' then Fragment [CardRenderer u, SignatureLink sig]
              else if t = Some ''dashboard'' then Fragment [DashboardRenderer u, SignatureLink sig]
              else if t = Some ''advanced-grid'' then
                Fragment [AdvancedGridRenderer u, SignatureLink sig]
              else if t = Some ''data-table'' then Fragment [DataTableRenderer u, SignatureLink sig]
              else if t = Some ''analytics-dashboard'' then
                Fragment [AnalyticsDashboardRenderer u, SignatureLink sig]
              else if t = Some ''markets'' then Fragment [MarketsRenderer u, SignatureLink sig]
              else Div ''Unsupported UI type'')))"

section \<open>Notions the properties are stated with\<close>

text \<open>
  The \<open>type\<close> tags of the members of the union \<open>UIData\<close> (\<open>lib/types.ts\<close>), and the
  renderer meant for each.
\<close>

definition UIData_types :: "string list" where
  "UIData_types =
     [''grid'', ''card'', ''dashboard'', ''advanced-grid'', ''data-table'',
      ''analytics-dashboard'', ''markets'']"

definition corresponding_renderer :: "(string \<times> (json \<Rightarrow> element)) list" where
  "corresponding_renderer =
     [(''grid'', GridRenderer),
      (''card'', CardRenderer),
      (''dashboard'', DashboardRenderer),
      (''advanced-grid'', AdvancedGridRenderer),
      (''data-table'', DataTableRenderer),
      (''analytics-dashboard'', AnalyticsDashboardRenderer),
      (''markets'', MarketsRenderer)]"



text \<open>
  The four conditions C3 names for the custom header triple: the transaction is found,
  has no on-chain error, the treasury is among its static account keys, and the
  treasury's balance there grew by at least 95% of the expected amount.
\<close>

definition claimed_custom_conditions :: "externals \<Rightarrow> x402_config \<Rightarrow> int \<Rightarrow> string \<Rightarrow> bool" where
  "claimed_custom_conditions X cfg expectedAmount customSignature =
     (case Connection X (rpcEndpoint cfg) of
        Inl e \<Rightarrow> False
      | Inr connection \<Rightarrow>
          (case getTransaction X connection customSignature of
             Inr (Some tx) \<Rightarrow>
               (case (meta tx, staticAccountKeys tx) of
                  (Some m, Inr accountKeys) \<Rightarrow>
                    err m = None \<and> payTo cfg \<in> set accountKeys
                    \<and> (case findIndex (\<lambda>key. key = payTo cfg) accountKeys of
                          None \<Rightarrow> False
                        | Some i \<Rightarrow>
                            i < length (postBalances m) \<and> i < length (preBalances m)
                            \<and> 95 * expectedAmount
                                \<le> 100 * (postBalances m ! i - preBalances m ! i))
                | _ \<Rightarrow> False)
           | _ \<Rightarrow> False))"

section \<open>Concrete requests, transactions and services\<close>

text \<open>
  Stand-ins for the outside world, used to run the handlers on explicit inputs: a
  payment library that accepts the header \<open>valid\<close>, a public-key constructor that
  rejects text outside the base-58 alphabet or of the wrong length, a chain given as a
  function from signatures to transactions, and a generator yielding
  \<open>0, 0.1, \<dots>, 0.9, 0, \<dots>\<close>.
\<close>

definition base58_key :: "string \<Rightarrow> bool" where
  "base58_key s =
     (32 \<le> length s \<and> length s \<le> 44
      \<and> list_all (\<lambda>c. c \<in> set ''123456789ABCDEFGHJKLMNPQRSTUVWXYZabcdefghijkmnopqrstuvwxyz'') s)"

definition services :: "(string \<Rightarrow> transaction_response option thrown) \<Rightarrow> externals" where
  "services chain =
     \<lparr> process_env = Map.empty,
       extractPayment = (\<lambda>hs. hs ''X-PAYMENT''),
       createPaymentRequirements =
         (\<lambda>rc. Inr (JObj [(''maxAmountRequired'', JStr (amount rc)),
                         (''resource'', JStr (resource rc)),
                         (''description'', JStr (description rc))])),
       create402Response =
         (\<lambda>reqs. (402, [(''x402Version'', JNum 1), (''accepts'', JArr [reqs])])),
       verifyPayment = (\<lambda>h reqs. Inr \<lparr> isValid = (h = ''valid''), invalidReason = None \<rparr>),
       settlePayment = (\<lambda>h reqs. Inr (JObj [(''success'', JBool True)])),
       Connection = Inr,
       getTransaction = (\<lambda>connection. chain),
       PublicKey =
         (\<lambda>s. if base58_key s then Inr s else Inl (Error ''Invalid public key input'')),
       Math_random = (\<lambda>k. real (k mod 10) / 10),
       Date_now = 1700000000000 \<rparr>"

definition treasury :: string where
  "treasury = ''8MeWTYDip5SWVJf3wkvDKZw9BjSAWMXm5oAeELJ6HFM9''"

definition payer :: string where
  "payer = ''4Nd1mBQtrMJVYVfKf2PJy9NZUZdTAsp7D4xWLs4gDB4T''"

definition stranger :: string where
  "stranger = ''9xQeWvG816bUx9EPjHmaT23yvVM2ZWbrrpZb9PusVFin''"

text \<open>A successful transfer of 500000 lamports from the payer to the treasury.\<close>

definition paid_tx :: transaction_response where
  "paid_tx =
     \<lparr> meta = Some \<lparr> err = None,
                     preBalances = [1000000000, 2000000, 1],
                     postBalances = [999495000, 2500000, 1] \<rparr>,
       staticAccountKeys = Inr [payer, treasury, ''11111111111111111111111111111111''] \<rparr>"

text \<open>A successful transfer of 1 lamport from the payer to somebody else.\<close>

definition stranger_tx :: transaction_response where
  "stranger_tx =
     \<lparr> meta = Some \<lparr> err = None,
                     preBalances = [1000000000, 7, 1],
                     postBalances = [999994999, 8, 1] \<rparr>,
       staticAccountKeys = Inr [payer, stranger, ''11111111111111111111111111111111''] \<rparr>"

definition chain_of :: "transaction_response \<Rightarrow> string \<Rightarrow> transaction_response option thrown" where
  "chain_of tx sig = (if sig = ''5VERv8NMvzbJMEkV8xnrLkEaWRtSz9CosKDYjCJjBRnb'' then Inr (Some tx) else Inr None)"

definition render_request :: "(string \<times> string) list \<Rightarrow> string option \<Rightarrow> request" where
  "render_request hs ct =
     \<lparr> headers = map_of hs,
       json_body = Inr (Some \<lparr> componentType = ct, config = None \<rparr>) \<rparr>"

definition custom_headers :: "string \<Rightarrow> (string \<times> string) list" where
  "custom_headers pk =
     [(''X-Payment-Signature'', ''5VERv8NMvzbJMEkV8xnrLkEaWRtSz9CosKDYjCJjBRnb''),
      (''X-Payment-PublicKey'', pk),
      (''X-Payment-Timestamp'', ''1700000000000'')]"

definition malformed_request :: request where
  "malformed_request = \<lparr> headers = Map.empty, json_body = Inl SyntaxError \<rparr>"

text \<open>
  A server that answers 402 with payment terms unless the request carries a payment
  signature, a server that asks for nothing, and a wallet that always pays.
\<close>

definition gated_net :: "nat \<Rightarrow> string \<Rightarrow> request_init option \<Rightarrow> nat fetch_response thrown" where
  "gated_net k url options =
     (case opt_field options init_headers of
        None \<Rightarrow>
          Inr \<lparr> fetch_status = 402, fetch_json = Inr (JObj [(''paymentRequired'', JBool True)]),
                payload = k \<rparr>
      | Some hs \<Rightarrow>
          if map_of hs ''X-Payment-Signature'' = None then
            Inr \<lparr> fetch_status = 402, fetch_json = Inr (JObj [(''paymentRequired'', JBool True)]),
                  payload = k \<rparr>
          else
            Inr \<lparr> fetch_status = 200, fetch_json = Inr (JObj [(''success'', JBool True)]),
                  payload = k \<rparr>)"

definition open_net :: "nat \<Rightarrow> string \<Rightarrow> request_init option \<Rightarrow> nat fetch_response thrown" where
  "open_net k url options =
     Inr \<lparr> fetch_status = 200, fetch_json = Inr (JObj [(''success'', JBool True)]), payload = k \<rparr>"

definition wallet :: "json \<Rightarrow> payment_proof option thrown" where
  "wallet paymentDetails =
     Inr (Some \<lparr> proof_signature = ''5VERv8NMvzbJMEkV8xnrLkEaWRtSz9CosKDYjCJjBRnb'',
                  proof_publicKey = ''4Nd1mBQtrMJVYVfKf2PJy9NZUZdTAsp7D4xWLs4gDB4T'',
                  proof_timestamp = 1700000000000 \<rparr>)"

text \<open>
  The options of a POST with a content type, a body and one more property, and a
  stand-in for the runtime's printing of numbers outside the integers below \<open>2^53\<close>.
\<close>

definition post_options :: request_init where
  "post_options =
     \<lparr> init_method = Some ''POST'',
       init_headers = Some [(''Content-Type'', ''application/json'')],
       init_body = Some ''{}'',
       init_other = [(''credentials'', JStr ''include'')] \<rparr>"

definition exponent_notation :: "real \<Rightarrow> string" where
  "exponent_notation x = ''1e+21''"

definition null_body_request :: "(string \<times> string) list \<Rightarrow> request" where
  "null_body_request hs = \<lparr> headers = map_of hs, json_body = Inr None \<rparr>"

text \<open>A paid request to the premium route for an advanced grid of one item.\<close>

definition one_item_request :: request where
  "one_item_request =
     \<lparr> headers = map_of (custom_headers payer),
       json_body =
         Inr (Some \<lparr> componentType = Some ''advanced-grid'',
                      config = Some \<lparr> columns = None, gap = None, itemCount = Some 1,
                                      title = None, content = None, actions = None \<rparr> \<rparr>) \<rparr>"

section \<open>Evaluation on concrete inputs\<close>

text \<open>The definitions to unfold when a handler is run on an explicit input.\<close>

lemmas fixture_defs = services_def chain_of_def stranger_tx_def paid_tx_def treasury_def
  payer_def stranger_def render_request_def custom_headers_def base58_key_def

lemmas js_defs = truthy_str_def or_str_def or_number_def or_prop_def opt_field_def String_opt_def
  js_get_def Object_prototype_def at_index_def truthy_price_def

lemmas handler_defs = POST_def verify_step_def deliver_def hasCustomPayment_def
  verifyCustomPayment_def respond_def internal_error_def success_body_def
  payment_required_body_def obj_def serialise_property_def List.map_filter_def price_def
  requirements_request_def startsWith_def NextResponse_json_def x402Config_def

section \<open>Payment verification ignores recipient and amount\<close>

text \<open>
  C2. \<open>verifyPaymentTransaction\<close> is claimed to return true only if the transaction
  transfers the expected amount to the expected recipient. It never reads either: on a
  successful transfer of one lamport to a stranger, in which the treasury is no
  account at all, it returns true, and \<open>/api/verify-payment\<close> answers 200, while the
  check of the render routes rejects the same transaction.
\<close>

theorem verifyPaymentTransaction_accepts_any_successful_transaction:
  "staticAccountKeys stranger_tx = Inr [payer, stranger, ''11111111111111111111111111111111'']
   \<and> treasury \<notin> {payer, stranger, ''11111111111111111111111111111111''}
   \<and> verifyPaymentTransaction (services (chain_of stranger_tx))
         ''5VERv8NMvzbJMEkV8xnrLkEaWRtSz9CosKDYjCJjBRnb'' ''https://api.mainnet-beta.solana.com''
         (Own 500000) treasury
   \<and> \<not> verifyCustomPayment (services (chain_of stranger_tx)) (x402Config Map.empty) 500000
         ''5VERv8NMvzbJMEkV8xnrLkEaWRtSz9CosKDYjCJjBRnb'' payer
   \<and> status (fst (POST_verify_payment (services (chain_of stranger_tx))
         \<lparr> verify_json_body =
             Inr (Some \<lparr> signature = Some ''5VERv8NMvzbJMEkV8xnrLkEaWRtSz9CosKDYjCJjBRnb'',
                          publicKey = Some payer,
                          endpoint = Some ''/api/render-ui'' \<rparr>) \<rparr>)) = 200"
  by (simp add: verifyPaymentTransaction_def verifyCustomPayment_def POST_verify_payment_def
      NextResponse_json_def x402Config_def fixture_defs js_defs)

section \<open>Keys inherited from \<open>Object.prototype\<close>\<close>

text \<open>
  C9. \<open>generateUI\<close> and \<open>generatePremiumUI\<close> are claimed to return their default
  template for every \<open>componentType\<close> outside their three keys, so that every verified
  request receives a UI payload. For \<open>constructor\<close>, a key every object literal inherits,
  the table lookup is truthy and the default is not taken: both generators return the
  inherited function, which is not the template an unknown key gets, and the verified
  request is answered 200 with no \<open>ui\<close> property.
\<close>

theorem generateUI_returns_inherited_member:
  "generateUI ''constructor'' None = Inr (Inherited ''constructor'')
   \<and> generateUI ''no-such-component'' None
       = Inr (Own (grid_template None (map grid_item [0, 1, 2, 3, 4, 5])))
   \<and> fst (generatePremiumUI (\<lambda>k. 0) 0 ''constructor'' None) = Inr (Inherited ''constructor'')
   \<and> returned (POST_render_ui (services (chain_of paid_tx)) 0
        (render_request (custom_headers payer) (Some ''constructor'')))
      = NextResponse_json
          (JObj [(''success'', JBool True), (''message'', JStr ''UI rendered successfully'')])
          200 [(''X-X402-Protected'', ''true''), (''X-Payment-Verified'', ''true'')]"
proof (intro conjI)
  show "generateUI ''constructor'' None = Inr (Inherited ''constructor'')"
    by (simp add: generateUI_def Array_from_def ToLength_def js_defs)
  have "[0..<6] = [0, 1, 2, 3, 4, 5]"
    by (simp add: upt_rec)
  then show "generateUI ''no-such-component'' None
      = Inr (Own (grid_template None (map grid_item [0, 1, 2, 3, 4, 5])))"
    by (simp add: generateUI_def Array_from_def ToLength_def js_defs)
  show "fst (generatePremiumUI (\<lambda>k. 0) 0 ''constructor'' None) = Inr (Inherited ''constructor'')"
    by (simp add: generatePremiumUI_def Array_from_def ToLength_def js_defs)
  show "returned (POST_render_ui (services (chain_of paid_tx)) 0
        (render_request (custom_headers payer) (Some ''constructor'')))
      = NextResponse_json
          (JObj [(''success'', JBool True), (''message'', JStr ''UI rendered successfully'')])
          200 [(''X-X402-Protected'', ''true''), (''X-Payment-Verified'', ''true'')]"
    by (simp add: POST_render_ui_def render_ui_def handler_defs generateUI_def Array_from_def
        ToLength_def fixture_defs js_defs)
qed

text \<open>
  C10. \<open>/api/verify-payment\<close> is claimed to answer 400 \<open>Invalid endpoint\<close>, with no
  on-chain lookup, whenever \<open>endpoint\<close> is not one of the configured price keys. For the
  endpoint \<open>constructor\<close> the price lookup is truthy: the handler looks the signature up
  and answers 200.
\<close>

theorem verify_payment_accepts_inherited_endpoint:
  "POST_verify_payment (services (chain_of stranger_tx))
     \<lparr> verify_json_body =
         Inr (Some \<lparr> signature = Some ''5VERv8NMvzbJMEkV8xnrLkEaWRtSz9CosKDYjCJjBRnb'',
                      publicKey = Some payer,
                      endpoint = Some ''constructor'' \<rparr>) \<rparr>
   = (NextResponse_json
        (JObj [(''verified'', JBool True),
               (''message'', JStr ''Payment verified successfully''),
               (''signature'', JStr ''5VERv8NMvzbJMEkV8xnrLkEaWRtSz9CosKDYjCJjBRnb''),
               (''timestamp'', JNum 1700000000000)])
        200 [],
      [''5VERv8NMvzbJMEkV8xnrLkEaWRtSz9CosKDYjCJjBRnb''])"
  by (simp add: verifyPaymentTransaction_def POST_verify_payment_def
      NextResponse_json_def x402Config_def fixture_defs js_defs)

section \<open>The shape of a handler run\<close>

lemma POST_unparsed:
  assumes "json_body req = Inl e \<or> json_body req = Inr None"
  shows "POST R X d req = internal_error [ExtractPayment, ParseBody] d"
  using assms by (auto simp add: POST_def)

lemma POST_no_requirements:
  assumes "json_body req = Inr (Some b)"
    and "createPaymentRequirements X (requirements_request (x402Config (process_env X)) R b) = Inl e"
  shows "POST R X d req = internal_error [ExtractPayment, ParseBody, BuildRequirements] d"
  using assms by (simp add: POST_def)

lemma POST_unpaid:
  assumes "json_body req = Inr (Some b)"
    and "createPaymentRequirements X (requirements_request (x402Config (process_env X)) R b) = Inr reqs"
    and "\<not> truthy_str (extractPayment X (headers req))" and "\<not> hasCustomPayment req"
  shows "POST R X d req =
         respond
           (NextResponse_json
              (payment_required_body (x402Config (process_env X)) R (snd (create402Response X reqs)))
              (fst (create402Response X reqs))
              [(''X-X402-Protected'', ''true''), (''X-Payment-Required'', ''true'')])
           [ExtractPayment, ParseBody, BuildRequirements, Create402] d"
  using assms by (simp add: POST_def split: prod.splits)

lemma POST_paid:
  assumes "json_body req = Inr (Some b)"
    and "createPaymentRequirements X (requirements_request (x402Config (process_env X)) R b) = Inr reqs"
    and "truthy_str (extractPayment X (headers req)) \<or> hasCustomPayment req"
  shows "POST R X d req =
         (case verify_step R X (x402Config (process_env X)) req reqs of
            (Inl e, verifying) \<Rightarrow>
              internal_error ([ExtractPayment, ParseBody, BuildRequirements] @ verifying) d
          | (Inr verified, verifying) \<Rightarrow>
              if \<not> verified then
                respond
                  (NextResponse_json
                     (JObj [(''error'', JStr ''Invalid payment - verification failed'')]) 402 [])
                  ([ExtractPayment, ParseBody, BuildRequirements] @ verifying) d
              else
                deliver R X d req b reqs
                  ([ExtractPayment, ParseBody, BuildRequirements] @ verifying))"
  using assms by (auto simp add: POST_def)

section \<open>Unpaid requests\<close>

lemma payment_terms:
  "\<exists>props. payment_required_body cfg R library_body = JObj props
     \<and> map_of props ''paymentRequired'' = Some (JBool True)
     \<and> map_of props ''price'' = Some (JNum (price cfg (path R)))
     \<and> map_of props ''network'' = Some (JStr ''solana'')
     \<and> map_of props ''asset'' = Some (JStr ''SOL'')
     \<and> map_of props ''payTo'' = Some (JStr (payTo cfg))"
  by (simp add: payment_required_body_def spread_def update_conv')

lemma configured_price:
  "price (x402Config env) (path render_ui) = 500000"
  "price (x402Config env) (path premium_ui) = 500000"
  by (simp_all add: price_def x402Config_def render_ui_def premium_ui_def)

lemma configured_payTo: "payTo (x402Config env) = ''8MeWTYDip5SWVJf3wkvDKZw9BjSAWMXm5oAeELJ6HFM9''"
  by (simp add: x402Config_def)

text \<open>
  C1 (amended). A request to either route that carries neither a non-empty standard
  payment header nor the complete custom triple, whose body parses to an object and for
  which the payment requirements are built, is answered with the status of the
  library's payment-required response (402) and a body holding
  \<open>paymentRequired: true\<close>, the configured price 500000, network \<open>solana\<close>, asset
  \<open>SOL\<close> and the configured \<open>payTo\<close>; no template is generated. When the body does not
  parse, is \<open>null\<close>, or the requirements cannot be built, the answer is 500.
\<close>

theorem unpaid_request_gets_payment_terms:
  assumes route: "R = render_ui \<or> R = premium_ui"
    and unpaid: "\<not> truthy_str (extractPayment X (headers req))" "\<not> hasCustomPayment req"
  shows "(\<forall>b reqs. json_body req = Inr (Some b)
            \<and> createPaymentRequirements X (requirements_request (x402Config (process_env X)) R b)
                = Inr reqs
            \<and> fst (create402Response X reqs) = 402
          \<longrightarrow> status (returned (POST R X d req)) = 402
              \<and> (\<exists>props. body (returned (POST R X d req)) = JObj props
                    \<and> map_of props ''paymentRequired'' = Some (JBool True)
                    \<and> map_of props ''price'' = Some (JNum 500000)
                    \<and> map_of props ''network'' = Some (JStr ''solana'')
                    \<and> map_of props ''asset'' = Some (JStr ''SOL'')
                    \<and> map_of props ''payTo''
                        = Some (JStr ''8MeWTYDip5SWVJf3wkvDKZw9BjSAWMXm5oAeELJ6HFM9''))
              \<and> GenerateTemplate \<notin> set (steps (POST R X d req)))
       \<and> ((\<exists>e. json_body req = Inl e) \<or> json_body req = Inr None
          \<longrightarrow> status (returned (POST R X d req)) = 500)
       \<and> (\<forall>b e. json_body req = Inr (Some b)
            \<and> createPaymentRequirements X (requirements_request (x402Config (process_env X)) R b)
                = Inl e
          \<longrightarrow> status (returned (POST R X d req)) = 500)"
proof (intro conjI allI impI)
  fix b reqs
  assume ok: "json_body req = Inr (Some b)
            \<and> createPaymentRequirements X (requirements_request (x402Config (process_env X)) R b)
                = Inr reqs
            \<and> fst (create402Response X reqs) = 402"
  then have run: "POST R X d req =
         respond
           (NextResponse_json
              (payment_required_body (x402Config (process_env X)) R (snd (create402Response X reqs)))
              402 [(''X-X402-Protected'', ''true''), (''X-Payment-Required'', ''true'')])
           [ExtractPayment, ParseBody, BuildRequirements, Create402] d"
    using POST_unpaid [of req b X R reqs d] unpaid by simp
  show "status (returned (POST R X d req)) = 402"
    by (simp add: run respond_def NextResponse_json_def)
  show "GenerateTemplate \<notin> set (steps (POST R X d req))"
    by (simp add: run respond_def)
  from route payment_terms [of "x402Config (process_env X)" R "snd (create402Response X reqs)"]
  show "\<exists>props. body (returned (POST R X d req)) = JObj props
                    \<and> map_of props ''paymentRequired'' = Some (JBool True)
                    \<and> map_of props ''price'' = Some (JNum 500000)
                    \<and> map_of props ''network'' = Some (JStr ''solana'')
                    \<and> map_of props ''asset'' = Some (JStr ''SOL'')
                    \<and> map_of props ''payTo''
                        = Some (JStr ''8MeWTYDip5SWVJf3wkvDKZw9BjSAWMXm5oAeELJ6HFM9'')"
    by (auto simp add: run respond_def NextResponse_json_def configured_price configured_payTo)
next
  assume "(\<exists>e. json_body req = Inl e) \<or> json_body req = Inr None"
  then show "status (returned (POST R X d req)) = 500"
    using POST_unparsed [of req _ R X d]
    by (auto simp add: internal_error_def respond_def NextResponse_json_def)
next
  fix b e
  assume "json_body req = Inr (Some b)
            \<and> createPaymentRequirements X (requirements_request (x402Config (process_env X)) R b)
                = Inl e"
  then show "status (returned (POST R X d req)) = 500"
    using POST_no_requirements [of req b X R e d]
    by (simp add: internal_error_def respond_def NextResponse_json_def)
qed

text \<open>
  C1 as stated fails: a request with no payment header at all and a body that is not
  JSON is answered 500, not 402.
\<close>

theorem unpaid_malformed_body_counterexample:
  "\<not> truthy_str (extractPayment (services (chain_of paid_tx)) (headers malformed_request))
   \<and> \<not> hasCustomPayment malformed_request
   \<and> status (returned (POST_render_ui (services (chain_of paid_tx)) 0 malformed_request)) = 500"
  by (simp add: POST_render_ui_def malformed_request_def handler_defs fixture_defs js_defs)

text \<open>
  The amended C1 at work: an unpaid request for a card gets 402 and the price; an
  unpaid request whose body does not parse gets 500.
\<close>

theorem unpaid_request_gets_payment_terms_witness:
  "status (returned (POST render_ui (services (chain_of paid_tx)) 0 (render_request [] (Some ''card'')))) = 402
   \<and> (\<exists>props. body (returned (POST render_ui (services (chain_of paid_tx)) 0
                  (render_request [] (Some ''card'')))) = JObj props
          \<and> map_of props ''price'' = Some (JNum 500000))
   \<and> status (returned (POST premium_ui (services (chain_of paid_tx)) 0 malformed_request)) = 500"
proof -
  let ?X = "services (chain_of paid_tx)"
  let ?req = "render_request [] (Some ''card'')"
  let ?b = "\<lparr> componentType = Some ''card'', config = None \<rparr>"
  have unpaid: "\<not> truthy_str (extractPayment ?X (headers ?req))" "\<not> hasCustomPayment ?req"
    by (simp_all add: hasCustomPayment_def fixture_defs js_defs)
  have ok: "json_body ?req = Inr (Some ?b)
      \<and> createPaymentRequirements ?X (requirements_request (x402Config (process_env ?X)) render_ui ?b)
          = Inr (JObj [(''maxAmountRequired'', JStr ''500000''),
                       (''resource'', JStr ''https://grid.wtf/api/render-ui''),
                       (''description'', JStr ''Basic UI Component Render - card'')])
      \<and> fst (create402Response ?X
               (JObj [(''maxAmountRequired'', JStr ''500000''),
                       (''resource'', JStr ''https://grid.wtf/api/render-ui''),
                       (''description'', JStr ''Basic UI Component Render - card'')])) = 402"
    by (simp add: requirements_request_def render_ui_def price_def x402Config_def startsWith_def
        String_int_def String_nat.simps digit_char_def fixture_defs js_defs)
  have unpaid': "\<not> truthy_str (extractPayment ?X (headers malformed_request))"
    "\<not> hasCustomPayment malformed_request"
    by (simp_all add: hasCustomPayment_def malformed_request_def fixture_defs js_defs)
  have bad: "(\<exists>e. json_body malformed_request = Inl e) \<or> json_body malformed_request = Inr None"
    by (simp add: malformed_request_def)
  from unpaid_request_gets_payment_terms [of render_ui ?X ?req 0, OF _ unpaid] ok
    unpaid_request_gets_payment_terms [of premium_ui ?X malformed_request 0, OF _ unpaid'] bad
  show ?thesis by blast
qed

section \<open>The client's retry\<close>

lemma Number_toString_integer:
  assumes "\<bar>n\<bar> < 2 ^ 53"
  shows "Number_toString runtime (real_of_int n) = String_int n"
proof -
  from assms have "\<bar>real_of_int n\<bar> < 2 ^ 53"
    by (metis of_int_abs of_int_less_numeral_power_cancel_iff)
  then show ?thesis
    by (simp add: Number_toString_def)
qed

lemma retry_headers:
  "\<exists>hs. init_headers (retry_options runtime options p) = Some hs
     \<and> (\<forall>name. map_of hs name =
           (if name = ''X-Payment-Signature'' then Some (proof_signature p)
            else if name = ''X-Payment-PublicKey'' then Some (proof_publicKey p)
            else if name = ''X-Payment-Timestamp''
              then Some (Number_toString runtime (proof_timestamp p))
            else map_of (given_headers options) name))
     \<and> (distinct (map fst (given_headers options)) \<longrightarrow> distinct (map fst hs))"
  by (simp add: retry_options_def spread_headers_def update_conv' distinct_update)

lemma retry_keeps_the_request:
  "init_method (retry_options runtime options p) = opt_field options init_method"
  "init_body (retry_options runtime options p) = opt_field options init_body"
  "init_other (retry_options runtime options p) = given_other options"
  by (simp_all add: retry_options_def)

text \<open>
  C6. Let the first \<open>fetch\<close> return a response. If its status is 402, its body parses,
  and the supplied handler returns a proof for it, exactly one more request is made, to
  the same URL: it has the method, the body and every other property of the first, and
  the headers of the first with \<open>X-Payment-Signature\<close>, \<open>X-Payment-PublicKey\<close> and
  \<open>X-Payment-Timestamp\<close> set to the proof's signature, public key and
  \<open>timestamp.toString()\<close> (the decimal digits, for an integer below \<open>2^53\<close>); what that
  second \<open>fetch\<close> settles to is the result. If the status is 402 and there is no
  handler, or the handler returns \<open>null\<close>, the call throws after that one request. If
  the status is not 402 the response is returned as it is.
\<close>

theorem fetchWithPayment_retries_once_with_proof:
  assumes first: "net 0 url options = Inr first"
  shows "(fetch_status first = 402 \<and> fetch_json first = Inr details
            \<and> onPaymentRequired = Some handler \<and> handler details = Inr (Some p)
          \<longrightarrow> (\<exists>retry hs.
                settled (fetchWithPayment runtime net url options onPaymentRequired)
                  = net 1 url (Some retry)
                \<and> requests (fetchWithPayment runtime net url options onPaymentRequired)
                  = [(url, options), (url, Some retry)]
                \<and> init_method retry = opt_field options init_method
                \<and> init_body retry = opt_field options init_body
                \<and> init_other retry = given_other options
                \<and> init_headers retry = Some hs
                \<and> (\<forall>name. map_of hs name =
                      (if name = ''X-Payment-Signature'' then Some (proof_signature p)
                       else if name = ''X-Payment-PublicKey'' then Some (proof_publicKey p)
                       else if name = ''X-Payment-Timestamp''
                         then Some (Number_toString runtime (proof_timestamp p))
                       else map_of (given_headers options) name))
                \<and> (distinct (map fst (given_headers options)) \<longrightarrow> distinct (map fst hs))
                \<and> (\<forall>n. proof_timestamp p = real_of_int n \<and> \<bar>n\<bar> < 2 ^ 53
                      \<longrightarrow> map_of hs ''X-Payment-Timestamp'' = Some (String_int n))))
       \<and> (fetch_status first = 402
            \<and> (onPaymentRequired = None
                 \<or> (fetch_json first = Inr details \<and> onPaymentRequired = Some handler
                     \<and> handler details = Inr None))
          \<longrightarrow> (\<exists>e. settled (fetchWithPayment runtime net url options onPaymentRequired) = Inl e)
              \<and> requests (fetchWithPayment runtime net url options onPaymentRequired)
                = [(url, options)])
       \<and> (fetch_status first \<noteq> 402
          \<longrightarrow> settled (fetchWithPayment runtime net url options onPaymentRequired) = Inr first
              \<and> requests (fetchWithPayment runtime net url options onPaymentRequired)
                = [(url, options)])"
proof (intro conjI impI)
  assume h: "fetch_status first = 402 \<and> fetch_json first = Inr details
            \<and> onPaymentRequired = Some handler \<and> handler details = Inr (Some p)"
  let ?retry = "retry_options runtime options p"
  from retry_headers [of runtime options p] obtain hs where
    hs: "init_headers ?retry = Some hs"
    and names: "\<forall>name. map_of hs name =
           (if name = ''X-Payment-Signature'' then Some (proof_signature p)
            else if name = ''X-Payment-PublicKey'' then Some (proof_publicKey p)
            else if name = ''X-Payment-Timestamp''
              then Some (Number_toString runtime (proof_timestamp p))
            else map_of (given_headers options) name)"
    and once: "distinct (map fst (given_headers options)) \<longrightarrow> distinct (map fst hs)"
    by blast
  from names have digits: "\<forall>n. proof_timestamp p = real_of_int n \<and> \<bar>n\<bar> < 2 ^ 53
      \<longrightarrow> map_of hs ''X-Payment-Timestamp'' = Some (String_int n)"
    by (simp add: Number_toString_integer)
  from first h have result: "settled (fetchWithPayment runtime net url options onPaymentRequired)
      = net 1 url (Some ?retry)"
    and made: "requests (fetchWithPayment runtime net url options onPaymentRequired)
      = [(url, options), (url, Some ?retry)]"
    by (simp_all add: fetchWithPayment_def)
  from result made hs names once digits retry_keeps_the_request [of runtime options p]
  show "\<exists>retry hs.
                settled (fetchWithPayment runtime net url options onPaymentRequired)
                  = net 1 url (Some retry)
                \<and> requests (fetchWithPayment runtime net url options onPaymentRequired)
                  = [(url, options), (url, Some retry)]
                \<and> init_method retry = opt_field options init_method
                \<and> init_body retry = opt_field options init_body
                \<and> init_other retry = given_other options
                \<and> init_headers retry = Some hs
                \<and> (\<forall>name. map_of hs name =
                      (if name = ''X-Payment-Signature'' then Some (proof_signature p)
                       else if name = ''X-Payment-PublicKey'' then Some (proof_publicKey p)
                       else if name = ''X-Payment-Timestamp''
                         then Some (Number_toString runtime (proof_timestamp p))
                       else map_of (given_headers options) name))
                \<and> (distinct (map fst (given_headers options)) \<longrightarrow> distinct (map fst hs))
                \<and> (\<forall>n. proof_timestamp p = real_of_int n \<and> \<bar>n\<bar> < 2 ^ 53
                      \<longrightarrow> map_of hs ''X-Payment-Timestamp'' = Some (String_int n))"
    by (intro exI [of _ ?retry] exI [of _ hs] conjI)
next
  assume h: "fetch_status first = 402
            \<and> (onPaymentRequired = None
                 \<or> (fetch_json first = Inr details \<and> onPaymentRequired = Some handler
                     \<and> handler details = Inr None))"
  with first
  show "\<exists>e. settled (fetchWithPayment runtime net url options onPaymentRequired) = Inl e"
    by (auto simp add: fetchWithPayment_def split: sum.splits)
  from first h
  show "requests (fetchWithPayment runtime net url options onPaymentRequired) = [(url, options)]"
    by (auto simp add: fetchWithPayment_def split: sum.splits)
next
  assume h: "fetch_status first \<noteq> 402"
  with first
  show "settled (fetchWithPayment runtime net url options onPaymentRequired) = Inr first"
    by (simp add: fetchWithPayment_def)
  from first h
  show "requests (fetchWithPayment runtime net url options onPaymentRequired) = [(url, options)]"
    by (simp add: fetchWithPayment_def)
qed

text \<open>
  C6 at work. Against the gated server the paying wallet's POST is made twice; the
  second request is again a POST with the same body, content type and other
  properties, carries the signature and the timestamp's digits, and its response is
  the result. Without a handler the call throws; the open server's response comes back
  as it is.
\<close>

theorem fetchWithPayment_retries_once_with_proof_witness:
  "(\<exists>retry hs.
      requests (fetchWithPayment exponent_notation gated_net ''/api/render-ui''
                  (Some post_options) (Some wallet))
        = [(''/api/render-ui'', Some post_options), (''/api/render-ui'', Some retry)]
      \<and> init_method retry = Some ''POST'' \<and> init_body retry = Some ''{}''
      \<and> init_other retry = [(''credentials'', JStr ''include'')]
      \<and> init_headers retry = Some hs
      \<and> map_of hs ''Content-Type'' = Some ''application/json''
      \<and> map_of hs ''X-Payment-Signature''
          = Some ''5VERv8NMvzbJMEkV8xnrLkEaWRtSz9CosKDYjCJjBRnb''
      \<and> map_of hs ''X-Payment-PublicKey''
          = Some ''4Nd1mBQtrMJVYVfKf2PJy9NZUZdTAsp7D4xWLs4gDB4T''
      \<and> map_of hs ''X-Payment-Timestamp'' = Some ''1700000000000''
      \<and> distinct (map fst hs))
   \<and> settled (fetchWithPayment exponent_notation gated_net ''/api/render-ui''
                (Some post_options) (Some wallet))
     = Inr \<lparr> fetch_status = 200, fetch_json = Inr (JObj [(''success'', JBool True)]), payload = 1 \<rparr>
   \<and> (\<exists>e. settled (fetchWithPayment exponent_notation gated_net ''/api/render-ui''
                    (Some post_options) None) = Inl e)
   \<and> settled (fetchWithPayment exponent_notation open_net ''/api/render-ui''
                (Some post_options) None)
     = Inr \<lparr> fetch_status = 200, fetch_json = Inr (JObj [(''success'', JBool True)]), payload = 0 \<rparr>"
proof -
  let ?url = "''/api/render-ui''"
  let ?terms = "JObj [(''paymentRequired'', JBool True)]"
  let ?first = "\<lparr> fetch_status = 402, fetch_json = Inr ?terms, payload = 0::nat \<rparr>"
  let ?ok = "\<lambda>k::nat. \<lparr> fetch_status = 200, fetch_json = Inr (JObj [(''success'', JBool True)]),
                       payload = k \<rparr>"
  let ?p = "\<lparr> proof_signature = ''5VERv8NMvzbJMEkV8xnrLkEaWRtSz9CosKDYjCJjBRnb'',
              proof_publicKey = ''4Nd1mBQtrMJVYVfKf2PJy9NZUZdTAsp7D4xWLs4gDB4T'',
              proof_timestamp = 1700000000000 \<rparr>"
  have gated: "gated_net 0 ?url (Some post_options) = Inr ?first"
    by (simp add: gated_net_def opt_field_def post_options_def)
  have paid: "fetch_status ?first = 402 \<and> fetch_json ?first = Inr ?terms
      \<and> Some wallet = Some wallet \<and> wallet ?terms = Inr (Some ?p)"
    by (simp add: wallet_def)
  have given: "given_headers (Some post_options) = [(''Content-Type'', ''application/json'')]"
    "given_other (Some post_options) = [(''credentials'', JStr ''include'')]"
    "opt_field (Some post_options) init_method = Some ''POST''"
    "opt_field (Some post_options) init_body = Some ''{}''"
    by (simp_all add: given_headers_def given_other_def opt_field_def post_options_def)
  have stamp: "proof_timestamp ?p = real_of_int 1700000000000 \<and> \<bar>1700000000000::int\<bar> < 2 ^ 53"
    by simp
  have digits: "String_int 1700000000000 = ''1700000000000''"
    by (simp add: String_int_def String_nat.simps digit_char_def)
  have "open": "open_net 0 ?url (Some post_options) = Inr (?ok 0)"
    by (simp add: open_net_def)
  note run = fetchWithPayment_retries_once_with_proof
    [where runtime = exponent_notation and url = ?url and options = "Some post_options"
       and details = ?terms and handler = wallet and p = ?p]
  from run [where net = gated_net and first = ?first and onPaymentRequired = "Some wallet",
         OF gated] paid
  obtain retry hs where
    made: "requests (fetchWithPayment exponent_notation gated_net ?url (Some post_options)
                       (Some wallet))
        = [(?url, Some post_options), (?url, Some retry)]"
    and result: "settled (fetchWithPayment exponent_notation gated_net ?url (Some post_options)
                       (Some wallet)) = gated_net 1 ?url (Some retry)"
    and kept: "init_method retry = opt_field (Some post_options) init_method"
      "init_body retry = opt_field (Some post_options) init_body"
      "init_other retry = given_other (Some post_options)"
    and hs: "init_headers retry = Some hs"
    and names: "\<forall>name. map_of hs name =
           (if name = ''X-Payment-Signature'' then Some (proof_signature ?p)
            else if name = ''X-Payment-PublicKey'' then Some (proof_publicKey ?p)
            else if name = ''X-Payment-Timestamp''
              then Some (Number_toString exponent_notation (proof_timestamp ?p))
            else map_of (given_headers (Some post_options)) name)"
    and once: "distinct (map fst (given_headers (Some post_options))) \<longrightarrow> distinct (map fst hs)"
    and stamped: "\<forall>n. proof_timestamp ?p = real_of_int n \<and> \<bar>n\<bar> < 2 ^ 53
                      \<longrightarrow> map_of hs ''X-Payment-Timestamp'' = Some (String_int n)"
    by blast
  from names have sig: "map_of hs ''X-Payment-Signature''
        = Some ''5VERv8NMvzbJMEkV8xnrLkEaWRtSz9CosKDYjCJjBRnb''"
    and pk: "map_of hs ''X-Payment-PublicKey''
        = Some ''4Nd1mBQtrMJVYVfKf2PJy9NZUZdTAsp7D4xWLs4gDB4T''"
    and ct: "map_of hs ''Content-Type'' = Some ''application/json''"
    by (simp_all add: given)
  from stamped stamp digits have ts: "map_of hs ''X-Payment-Timestamp'' = Some ''1700000000000''"
    by metis
  from once have dist: "distinct (map fst hs)"
    by (simp add: given)
  from result hs sig have answered: "settled (fetchWithPayment exponent_notation gated_net ?url
        (Some post_options) (Some wallet)) = Inr (?ok 1)"
    by (simp add: gated_net_def opt_field_def)
  from run [where net = gated_net and first = ?first and onPaymentRequired = None, OF gated]
  have thrown: "\<exists>e. settled (fetchWithPayment exponent_notation gated_net ?url
        (Some post_options) None) = Inl e"
    by simp
  from run [where net = open_net and onPaymentRequired = None and first = "?ok 0", OF "open"]
  have unchanged: "settled (fetchWithPayment exponent_notation open_net ?url
        (Some post_options) None) = Inr (?ok 0)"
    by simp
  from made kept hs sig pk ct ts dist have "\<exists>retry hs.
      requests (fetchWithPayment exponent_notation gated_net ?url (Some post_options) (Some wallet))
        = [(?url, Some post_options), (?url, Some retry)]
      \<and> init_method retry = Some ''POST'' \<and> init_body retry = Some ''{}''
      \<and> init_other retry = [(''credentials'', JStr ''include'')]
      \<and> init_headers retry = Some hs
      \<and> map_of hs ''Content-Type'' = Some ''application/json''
      \<and> map_of hs ''X-Payment-Signature''
          = Some ''5VERv8NMvzbJMEkV8xnrLkEaWRtSz9CosKDYjCJjBRnb''
      \<and> map_of hs ''X-Payment-PublicKey''
          = Some ''4Nd1mBQtrMJVYVfKf2PJy9NZUZdTAsp7D4xWLs4gDB4T''
      \<and> map_of hs ''X-Payment-Timestamp'' = Some ''1700000000000''
      \<and> distinct (map fst hs)"
    by (simp add: given)
  with answered thrown unchanged show ?thesis
    by simp
qed

section \<open>The renderer and the seven shapes\<close>

text \<open>
  What does hold: a payload tagged with one of the seven gets its renderer and the
  signature link, any other tag the fallback, and every template of the generators'
  own tables carries one of the seven tags.
\<close>

lemma type_of_truthy: "type_of u = Some t \<Longrightarrow> truthy_json (Some u)"
  by (cases u) (simp_all add: type_of_def truthy_json_def)

lemma UIRenderer_by_table:
  assumes "type_of u = Some t"
  shows "UIRenderer (Some \<lparr> ui = Some u \<rparr>) sig =
         (case map_of corresponding_renderer t of
            Some renderer \<Rightarrow> Fragment [renderer u, SignatureLink sig]
          | None \<Rightarrow> Div ''Unsupported UI type'')"
  using assms type_of_truthy [OF assms]
  by (simp add: UIRenderer_def opt_field_def corresponding_renderer_def)

lemma generateUI_types:
  assumes "generateUI ct cfg = Inr (Own u)"
  shows "\<exists>t. type_of u = Some t \<and> t \<in> set UIData_types"
  using assms
  by (auto simp add: generateUI_def js_defs type_of_def UIData_types_def grid_template_def
      card_template_def dashboard_template_def split: sum.splits if_splits)

lemma generatePremiumUI_types:
  assumes "fst (generatePremiumUI rnd d ct cfg) = Inr (Own u)"
  shows "\<exists>t. type_of u = Some t \<and> t \<in> set UIData_types"
  using assms
  by (auto simp add: generatePremiumUI_def js_defs type_of_def UIData_types_def
      advanced_grid_template_def data_table_template_def analytics_template_def Let_def
      split: sum.splits if_splits)

text \<open>
  C8. The renderer has a case for each of the seven \<open>type\<close> tags of \<open>UIData\<close>, and the
  seven shapes are claimed to be the only ones offered. For the component type
  \<open>__proto__\<close>, a key every object literal inherits, the template lookup of \<open>generateUI\<close>
  is truthy and gives \<open>Object.prototype\<close>: the verified request is answered 200 with
  \<open>ui: {}\<close>, a payload with no \<open>type\<close> at all, and \<open>UIRenderer\<close> takes the default
  branch its comment says should never happen. A dashboard payload, for comparison,
  goes to the dashboard renderer.
\<close>

theorem render_ui_offers_a_payload_outside_the_seven_shapes:
  "generateUI ''__proto__'' None = Inr (Inherited ''__proto__'')
   \<and> returned (POST_render_ui (services (chain_of paid_tx)) 0
        (render_request (custom_headers payer) (Some ''__proto__'')))
      = NextResponse_json
          (JObj [(''success'', JBool True), (''ui'', JObj []),
                 (''message'', JStr ''UI rendered successfully'')])
          200 [(''X-X402-Protected'', ''true''), (''X-Payment-Verified'', ''true'')]
   \<and> type_of (JObj []) = None
   \<and> UIRenderer (Some \<lparr> ui = Some (JObj []) \<rparr>)
        (Some ''5VERv8NMvzbJMEkV8xnrLkEaWRtSz9CosKDYjCJjBRnb'')
      = Div ''Unsupported UI type''
   \<and> UIRenderer (Some \<lparr> ui = Some dashboard_template \<rparr>)
        (Some ''5VERv8NMvzbJMEkV8xnrLkEaWRtSz9CosKDYjCJjBRnb'')
      = Fragment [DashboardRenderer dashboard_template,
                  SignatureLink (Some ''5VERv8NMvzbJMEkV8xnrLkEaWRtSz9CosKDYjCJjBRnb'')]"
proof (intro conjI)
  show "generateUI ''__proto__'' None = Inr (Inherited ''__proto__'')"
    by (simp add: generateUI_def Array_from_def ToLength_def js_defs)
  show "returned (POST_render_ui (services (chain_of paid_tx)) 0
        (render_request (custom_headers payer) (Some ''__proto__'')))
      = NextResponse_json
          (JObj [(''success'', JBool True), (''ui'', JObj []),
                 (''message'', JStr ''UI rendered successfully'')])
          200 [(''X-X402-Protected'', ''true''), (''X-Payment-Verified'', ''true'')]"
    by (simp add: POST_render_ui_def render_ui_def handler_defs generateUI_def Array_from_def
        ToLength_def fixture_defs js_defs)
  show "type_of (JObj []) = None"
    by (simp add: type_of_def)
  show "UIRenderer (Some \<lparr> ui = Some (JObj []) \<rparr>)
        (Some ''5VERv8NMvzbJMEkV8xnrLkEaWRtSz9CosKDYjCJjBRnb'')
      = Div ''Unsupported UI type''"
    by (simp add: UIRenderer_def opt_field_def truthy_json_def type_of_def)
  show "UIRenderer (Some \<lparr> ui = Some dashboard_template \<rparr>)
        (Some ''5VERv8NMvzbJMEkV8xnrLkEaWRtSz9CosKDYjCJjBRnb'')
      = Fragment [DashboardRenderer dashboard_template,
                  SignatureLink (Some ''5VERv8NMvzbJMEkV8xnrLkEaWRtSz9CosKDYjCJjBRnb'')]"
    by (simp add: UIRenderer_def opt_field_def truthy_json_def type_of_def dashboard_template_def)
qed

section \<open>Verification of the custom header triple\<close>

lemma findIndex_Some:
  "findIndex P xs = Some i \<longleftrightarrow> i < length xs \<and> P (xs ! i) \<and> (\<forall>x \<in> set (take i xs). \<not> P x)"
proof (induction xs arbitrary: i)
  case Nil
  then show ?case by simp
next
  case (Cons x xs)
  show ?case
  proof (cases "P x")
    case True
    then show ?thesis by (cases i) auto
  next
    case False
    then show ?thesis using Cons.IH by (cases i) auto
  qed
qed

lemma tolerance: "(real_of_int a \<ge> real_of_int e * 0.95) \<longleftrightarrow> 95 * e \<le> 100 * a"
proof -
  have "(real_of_int a \<ge> real_of_int e * 0.95) \<longleftrightarrow> real_of_int (95 * e) \<le> real_of_int (100 * a)"
    by (simp add: field_simps)
  also have "\<dots> \<longleftrightarrow> 95 * e \<le> 100 * a"
    by (rule of_int_le_iff)
  finally show ?thesis .
qed

lemma verifyCustomPayment_iff:
  "verifyCustomPayment X cfg expectedAmount customSignature customPublicKey \<longleftrightarrow>
     (\<exists>connection tx m senderPubkey recipientPubkey accountKeys i.
        Connection X (rpcEndpoint cfg) = Inr connection
        \<and> getTransaction X connection customSignature = Inr (Some tx)
        \<and> meta tx = Some m \<and> err m = None
        \<and> PublicKey X customPublicKey = Inr senderPubkey
        \<and> PublicKey X (payTo cfg) = Inr recipientPubkey
        \<and> staticAccountKeys tx = Inr accountKeys
        \<and> i < length accountKeys \<and> accountKeys ! i = recipientPubkey
        \<and> recipientPubkey \<notin> set (take i accountKeys)
        \<and> i < length (postBalances m) \<and> i < length (preBalances m)
        \<and> 95 * expectedAmount \<le> 100 * (postBalances m ! i - preBalances m ! i))"
  (is "?code \<longleftrightarrow> ?spec")
proof
  assume code: ?code
  note unfold = verifyCustomPayment_def opt_field_def at_index_def
  from code obtain connection where 1: "Connection X (rpcEndpoint cfg) = Inr connection"
    by (cases "Connection X (rpcEndpoint cfg)") (simp_all add: unfold)
  from code 1 obtain tx where 2: "getTransaction X connection customSignature = Inr (Some tx)"
    by (cases "getTransaction X connection customSignature")
      (auto simp add: unfold split: option.splits)
  from code 1 2 obtain m where 3: "meta tx = Some m"
    by (cases "meta tx") (auto simp add: unfold split: sum.splits option.splits)
  from code 1 2 3 have 4: "err m = None"
    by (cases "err m") (simp_all add: unfold)
  from code 1 2 3 4 obtain senderPubkey where 5: "PublicKey X customPublicKey = Inr senderPubkey"
    by (cases "PublicKey X customPublicKey") (simp_all add: unfold)
  from code 1 2 3 4 5 obtain recipientPubkey where 6: "PublicKey X (payTo cfg) = Inr recipientPubkey"
    by (cases "PublicKey X (payTo cfg)") (simp_all add: unfold)
  from code 1 2 3 4 5 6 obtain accountKeys where 7: "staticAccountKeys tx = Inr accountKeys"
    by (cases "staticAccountKeys tx") (simp_all add: unfold)
  from code 1 2 3 4 5 6 7 obtain i
    where 8: "findIndex (\<lambda>key. key = recipientPubkey) accountKeys = Some i"
    by (cases "findIndex (\<lambda>key. key = recipientPubkey) accountKeys") (simp_all add: unfold)
  from code 1 2 3 4 5 6 7 8
  have 9: "i < length (postBalances m)" "i < length (preBalances m)"
    "95 * expectedAmount \<le> 100 * (postBalances m ! i - preBalances m ! i)"
    by (simp_all add: unfold tolerance split: if_splits)
  from 8 have 10: "i < length accountKeys" "accountKeys ! i = recipientPubkey"
    "recipientPubkey \<notin> set (take i accountKeys)"
    by (auto simp add: findIndex_Some)
  from 1 2 3 4 5 6 7 9 10 show ?spec
    by blast
next
  assume ?spec
  then obtain connection tx m senderPubkey recipientPubkey accountKeys i where h:
    "Connection X (rpcEndpoint cfg) = Inr connection"
    "getTransaction X connection customSignature = Inr (Some tx)"
    "meta tx = Some m" "err m = None"
    "PublicKey X customPublicKey = Inr senderPubkey"
    "PublicKey X (payTo cfg) = Inr recipientPubkey"
    "staticAccountKeys tx = Inr accountKeys"
    "i < length accountKeys" "accountKeys ! i = recipientPubkey"
    "recipientPubkey \<notin> set (take i accountKeys)"
    "i < length (postBalances m)" "i < length (preBalances m)"
    "95 * expectedAmount \<le> 100 * (postBalances m ! i - preBalances m ! i)"
    by blast
  from h(8-10) have idx: "findIndex (\<lambda>key. key = recipientPubkey) accountKeys = Some i"
    by (auto simp add: findIndex_Some)
  from h idx show ?code
    by (simp add: verifyCustomPayment_def opt_field_def at_index_def tolerance)
qed


lemma verify_step_custom:
  assumes "\<not> truthy_str (extractPayment X (headers req))" "hasCustomPayment req"
    and "headers req ''X-Payment-Signature'' = Some customSignature"
    and "headers req ''X-Payment-PublicKey'' = Some customPublicKey"
  shows "verify_step R X cfg req reqs =
         (Inr (verifyCustomPayment X cfg (price cfg (path R)) customSignature customPublicKey),
          [VerifyCustom])"
  using assms by (simp add: verify_step_def String_opt_def)

lemma deliver_generates: "GenerateTemplate \<in> set (steps (deliver R X d req b reqs so_far))"
  by (simp add: deliver_def Let_def respond_def internal_error_def split: prod.splits sum.splits)

text \<open>
  C3 (amended). On a request to either route that is verified through the custom
  triple (body parsed, requirements built, no standard header), verification succeeds
  if and only if the RPC connection is made, the transaction is found with its metadata
  and no on-chain error, the \<open>X-Payment-PublicKey\<close> header and the treasury address are
  well-formed public keys, the account keys can be read, the treasury is among them,
  and the treasury's balance at its first index grew by at least 95% of the price
  500000 (both balances present there). When it does not succeed the handler answers
  402 with the error body and generates nothing; when it succeeds the template is
  generated.
\<close>

theorem custom_triple_verification:
  assumes route: "R = render_ui \<or> R = premium_ui"
    and parsed: "json_body req = Inr (Some b)"
    and built: "createPaymentRequirements X (requirements_request (x402Config (process_env X)) R b)
                = Inr reqs"
    and custom: "\<not> truthy_str (extractPayment X (headers req))" "hasCustomPayment req"
    and sig: "headers req ''X-Payment-Signature'' = Some customSignature"
    and pk: "headers req ''X-Payment-PublicKey'' = Some customPublicKey"
  shows "(fst (verify_step R X (x402Config (process_env X)) req reqs) = Inr True \<longleftrightarrow>
           (\<exists>connection tx m senderPubkey recipientPubkey accountKeys i.
              Connection X (rpcEndpoint (x402Config (process_env X))) = Inr connection
              \<and> getTransaction X connection customSignature = Inr (Some tx)
              \<and> meta tx = Some m \<and> err m = None
              \<and> PublicKey X customPublicKey = Inr senderPubkey
              \<and> PublicKey X (payTo (x402Config (process_env X))) = Inr recipientPubkey
              \<and> staticAccountKeys tx = Inr accountKeys
              \<and> i < length accountKeys \<and> accountKeys ! i = recipientPubkey
              \<and> recipientPubkey \<notin> set (take i accountKeys)
              \<and> i < length (postBalances m) \<and> i < length (preBalances m)
              \<and> 95 * 500000 \<le> 100 * (postBalances m ! i - preBalances m ! i)))
       \<and> (fst (verify_step R X (x402Config (process_env X)) req reqs) \<noteq> Inr True
          \<longrightarrow> returned (POST R X d req)
                = NextResponse_json
                    (JObj [(''error'', JStr ''Invalid payment - verification failed'')]) 402 []
              \<and> steps (POST R X d req)
                = [ExtractPayment, ParseBody, BuildRequirements, VerifyCustom, Respond 402])
       \<and> (fst (verify_step R X (x402Config (process_env X)) req reqs) = Inr True
          \<longrightarrow> GenerateTemplate \<in> set (steps (POST R X d req)))"
proof -
  let ?cfg = "x402Config (process_env X)"
  let ?v = "verifyCustomPayment X ?cfg 500000 customSignature customPublicKey"
  from route have price: "price ?cfg (path R) = 500000"
    by (auto simp add: configured_price)
  have step: "verify_step R X ?cfg req reqs = (Inr ?v, [VerifyCustom])"
    using verify_step_custom [OF custom sig pk, of R ?cfg reqs] price by simp
  have run: "POST R X d req =
      (if \<not> ?v then
         respond
           (NextResponse_json
              (JObj [(''error'', JStr ''Invalid payment - verification failed'')]) 402 [])
           [ExtractPayment, ParseBody, BuildRequirements, VerifyCustom] d
       else deliver R X d req b reqs [ExtractPayment, ParseBody, BuildRequirements, VerifyCustom])"
    using POST_paid [OF parsed built, of d] custom step by simp
  show ?thesis
  proof (intro conjI impI)
    show "fst (verify_step R X ?cfg req reqs) = Inr True \<longleftrightarrow>
           (\<exists>connection tx m senderPubkey recipientPubkey accountKeys i.
              Connection X (rpcEndpoint ?cfg) = Inr connection
              \<and> getTransaction X connection customSignature = Inr (Some tx)
              \<and> meta tx = Some m \<and> err m = None
              \<and> PublicKey X customPublicKey = Inr senderPubkey
              \<and> PublicKey X (payTo ?cfg) = Inr recipientPubkey
              \<and> staticAccountKeys tx = Inr accountKeys
              \<and> i < length accountKeys \<and> accountKeys ! i = recipientPubkey
              \<and> recipientPubkey \<notin> set (take i accountKeys)
              \<and> i < length (postBalances m) \<and> i < length (preBalances m)
              \<and> 95 * 500000 \<le> 100 * (postBalances m ! i - preBalances m ! i))"
      unfolding step fst_conv
      using verifyCustomPayment_iff [of X ?cfg 500000 customSignature customPublicKey]
      by simp
  next
    assume "fst (verify_step R X ?cfg req reqs) \<noteq> Inr True"
    then have "\<not> ?v" by (simp add: step)
    then show "returned (POST R X d req)
                = NextResponse_json
                    (JObj [(''error'', JStr ''Invalid payment - verification failed'')]) 402 []"
      and "steps (POST R X d req)
                = [ExtractPayment, ParseBody, BuildRequirements, VerifyCustom, Respond 402]"
      by (simp_all add: run respond_def NextResponse_json_def)
  next
    assume "fst (verify_step R X ?cfg req reqs) = Inr True"
    then have "?v" by (simp add: step)
    then show "GenerateTemplate \<in> set (steps (POST R X d req))"
      by (simp add: run deliver_generates)
  qed
qed

text \<open>
  C3 as stated fails: the transaction is found, succeeded, and pays the treasury the
  full price, but the \<open>X-Payment-PublicKey\<close> header is not a public key; constructing it
  throws inside the check, and the request is answered 402.
\<close>

theorem custom_triple_malformed_key_counterexample:
  "claimed_custom_conditions (services (chain_of paid_tx)) (x402Config Map.empty) 500000
     ''5VERv8NMvzbJMEkV8xnrLkEaWRtSz9CosKDYjCJjBRnb''
   \<and> steps (POST_render_ui (services (chain_of paid_tx)) 0
        (render_request (custom_headers ''not a public key'') (Some ''card'')))
      = [ExtractPayment, ParseBody, BuildRequirements, VerifyCustom, Respond 402]
   \<and> status (returned (POST_render_ui (services (chain_of paid_tx)) 0
        (render_request (custom_headers ''not a public key'') (Some ''card'')))) = 402"
  by (simp add: claimed_custom_conditions_def POST_render_ui_def render_ui_def handler_defs
      fixture_defs js_defs)

text \<open>
  The amended C3 at work: a transfer to a stranger is answered 402; the transfer to the
  treasury reaches the generator.
\<close>

theorem custom_triple_verification_witness:
  "steps (POST render_ui (services (chain_of stranger_tx)) 0
        (render_request (custom_headers payer) (Some ''card'')))
      = [ExtractPayment, ParseBody, BuildRequirements, VerifyCustom, Respond 402]
   \<and> GenerateTemplate \<in> set (steps (POST premium_ui (services (chain_of paid_tx)) 0
        (render_request (custom_headers payer) (Some ''data-table''))))"
proof -
  let ?req = "render_request (custom_headers payer) (Some ''card'')"
  let ?req' = "render_request (custom_headers payer) (Some ''data-table'')"
  let ?X = "services (chain_of stranger_tx)"
  let ?X' = "services (chain_of paid_tx)"
  let ?sig = "''5VERv8NMvzbJMEkV8xnrLkEaWRtSz9CosKDYjCJjBRnb''"
  let ?reqs = "JObj [(''maxAmountRequired'', JStr ''500000''),
                     (''resource'', JStr ''https://grid.wtf/api/render-ui''),
                     (''description'', JStr ''Basic UI Component Render - card'')]"
  let ?reqs' = "JObj [(''maxAmountRequired'', JStr ''500000''),
                     (''resource'', JStr ''https://grid.wtf/api/premium-ui''),
                     (''description'', JStr ''Premium UI Component Render - data-table'')]"
  have parsed: "json_body ?req = Inr (Some \<lparr> componentType = Some ''card'', config = None \<rparr>)"
    "json_body ?req' = Inr (Some \<lparr> componentType = Some ''data-table'', config = None \<rparr>)"
    by (simp_all add: render_request_def)
  have built: "createPaymentRequirements ?X
        (requirements_request (x402Config (process_env ?X)) render_ui
           \<lparr> componentType = Some ''card'', config = None \<rparr>) = Inr ?reqs"
    "createPaymentRequirements ?X'
        (requirements_request (x402Config (process_env ?X')) premium_ui
           \<lparr> componentType = Some ''data-table'', config = None \<rparr>) = Inr ?reqs'"
    by (simp_all add: requirements_request_def render_ui_def premium_ui_def price_def
        x402Config_def startsWith_def String_int_def String_nat.simps digit_char_def
        fixture_defs js_defs)
  have custom: "\<not> truthy_str (extractPayment ?X (headers ?req))" "hasCustomPayment ?req"
    "\<not> truthy_str (extractPayment ?X' (headers ?req'))" "hasCustomPayment ?req'"
    by (simp_all add: hasCustomPayment_def fixture_defs js_defs)
  have hs: "headers ?req ''X-Payment-Signature'' = Some ?sig"
    "headers ?req ''X-Payment-PublicKey'' = Some payer"
    "headers ?req' ''X-Payment-Signature'' = Some ?sig"
    "headers ?req' ''X-Payment-PublicKey'' = Some payer"
    by (simp_all add: render_request_def custom_headers_def)
  have rejected: "fst (verify_step render_ui ?X (x402Config (process_env ?X)) ?req ?reqs) \<noteq> Inr True"
    by (simp add: verify_step_def hasCustomPayment_def verifyCustomPayment_def render_ui_def
        price_def x402Config_def fixture_defs js_defs)
  have accepted: "fst (verify_step premium_ui ?X' (x402Config (process_env ?X')) ?req' ?reqs') = Inr True"
    by (simp add: verify_step_def hasCustomPayment_def verifyCustomPayment_def premium_ui_def
        price_def x402Config_def fixture_defs js_defs)
  from custom_triple_verification
         [where R = render_ui and X = ?X and req = ?req and d = 0,
          OF _ parsed(1) built(1) custom(1,2) hs(1,2)] rejected
  have a: "steps (POST render_ui ?X 0 ?req)
      = [ExtractPayment, ParseBody, BuildRequirements, VerifyCustom, Respond 402]"
    by blast
  from custom_triple_verification
         [where R = premium_ui and X = ?X' and req = ?req' and d = 0,
          OF _ parsed(2) built(2) custom(3,4) hs(3,4)] accepted
  have b: "GenerateTemplate \<in> set (steps (POST premium_ui ?X' 0 ?req'))"
    by blast
  from a b show ?thesis by simp
qed

section \<open>The two forms of payment proof\<close>

lemma verify_step_standard:
  assumes "truthy_str (extractPayment X (headers req))"
  shows "snd (verify_step R X cfg req reqs) = [VerifyStandard]"
  using assms by (simp add: verify_step_def split: sum.splits)

lemma deliver_steps:
  "steps (deliver R X d req b reqs so_far) = so_far @ [GenerateTemplate, Respond (status (returned (deliver R X d req b reqs so_far)))]
   \<or> steps (deliver R X d req b reqs so_far) = so_far @ [GenerateTemplate, SettlePayment, Respond (status (returned (deliver R X d req b reqs so_far)))]"
  by (simp add: deliver_def Let_def respond_def internal_error_def split: prod.splits sum.splits)

lemma verify_step_standard_only:
  assumes "truthy_str (extractPayment X (headers req))"
    and "extractPayment X (headers req') = extractPayment X (headers req)"
  shows "verify_step R X cfg req' reqs = verify_step R X cfg req reqs"
  using assms by (simp add: verify_step_def)

lemma deliver_standard_only:
  assumes "truthy_str (extractPayment X (headers req))"
    and "extractPayment X (headers req') = extractPayment X (headers req)"
  shows "deliver R X d req' b reqs so_far = deliver R X d req b reqs so_far"
  using assms by (simp add: deliver_def)

lemma POST_standard_only:
  assumes std: "truthy_str (extractPayment X (headers req))"
    and same_body: "json_body req' = json_body req"
    and same_header: "extractPayment X (headers req') = extractPayment X (headers req)"
  shows "POST R X d req' = POST R X d req"
proof (cases "json_body req")
  case (Inl e)
  with same_body show ?thesis by (simp add: POST_unparsed)
next
  case (Inr parsed)
  show ?thesis
  proof (cases parsed)
    case None
    with Inr same_body show ?thesis by (simp add: POST_unparsed)
  next
    case (Some b)
    show ?thesis
    proof (cases "createPaymentRequirements X (requirements_request (x402Config (process_env X)) R b)")
      case (Inl e)
      with Inr Some same_body show ?thesis
        by (simp add: POST_no_requirements [where b = b and e = e])
    next
      case built: (Inr reqs)
      from Inr Some same_body have parsed': "json_body req' = Inr (Some b)" by simp
      from Inr Some have parsed: "json_body req = Inr (Some b)" by simp
      from std same_header have std': "truthy_str (extractPayment X (headers req'))" by simp
      show ?thesis
        using POST_paid [OF parsed built, of d] POST_paid [OF parsed' built, of d] std std'
        by (simp add: verify_step_standard_only [OF std same_header]
            deliver_standard_only [OF std same_header] split: prod.splits sum.splits)
    qed
  qed
qed

lemma POST_generates_only_paid:
  assumes generated: "GenerateTemplate \<in> set (steps (POST R X d req))"
  shows "truthy_str (extractPayment X (headers req)) \<or> hasCustomPayment req"
proof (rule ccontr)
  assume "\<not> (truthy_str (extractPayment X (headers req)) \<or> hasCustomPayment req)"
  then have unpaid: "\<not> truthy_str (extractPayment X (headers req))" "\<not> hasCustomPayment req"
    by simp_all
  have "GenerateTemplate \<notin> set (steps (POST R X d req))"
  proof (cases "json_body req")
    case (Inl e)
    then show ?thesis by (simp add: POST_unparsed internal_error_def respond_def)
  next
    case (Inr parsed)
    show ?thesis
    proof (cases parsed)
      case None
      with Inr show ?thesis by (simp add: POST_unparsed internal_error_def respond_def)
    next
      case (Some b)
      with Inr have parsed: "json_body req = Inr (Some b)" by simp
      show ?thesis
      proof (cases "createPaymentRequirements X
                      (requirements_request (x402Config (process_env X)) R b)")
        case (Inl e)
        with parsed show ?thesis
          by (simp add: POST_no_requirements [where b = b and e = e] internal_error_def
              respond_def)
      next
        case built: (Inr reqs)
        show ?thesis
          by (simp add: POST_unpaid [OF parsed built unpaid] respond_def)
      qed
    qed
  qed
  with generated show False by simp
qed

lemma proof_forms_of_parsed_request:
  assumes parsed: "json_body req = Inr (Some b)"
    and built: "createPaymentRequirements X (requirements_request (x402Config (process_env X)) R b)
                = Inr reqs"
  shows "((headers req ''X-Payment-Signature'' = None \<or> headers req ''X-Payment-PublicKey'' = None
            \<or> headers req ''X-Payment-Timestamp'' = None)
          \<and> \<not> truthy_str (extractPayment X (headers req))
          \<and> fst (create402Response X reqs) = 402
          \<longrightarrow> steps (POST R X d req)
                = [ExtractPayment, ParseBody, BuildRequirements, Create402, Respond 402]
              \<and> status (returned (POST R X d req)) = 402)
       \<and> (truthy_str (extractPayment X (headers req))
          \<longrightarrow> VerifyStandard \<in> set (steps (POST R X d req))
              \<and> VerifyCustom \<notin> set (steps (POST R X d req))
              \<and> (\<forall>req'. json_body req' = json_body req
                    \<and> extractPayment X (headers req') = extractPayment X (headers req)
                  \<longrightarrow> POST R X d req' = POST R X d req))
       \<and> (\<not> truthy_str (extractPayment X (headers req)) \<and> hasCustomPayment req
          \<longrightarrow> VerifyCustom \<in> set (steps (POST R X d req))
              \<and> VerifyStandard \<notin> set (steps (POST R X d req)))
       \<and> (GenerateTemplate \<in> set (steps (POST R X d req))
          \<longrightarrow> truthy_str (extractPayment X (headers req)) \<or> hasCustomPayment req)"
proof (intro conjI impI allI)
  assume h: "(headers req ''X-Payment-Signature'' = None \<or> headers req ''X-Payment-PublicKey'' = None
            \<or> headers req ''X-Payment-Timestamp'' = None)
          \<and> \<not> truthy_str (extractPayment X (headers req))
          \<and> fst (create402Response X reqs) = 402"
  then have "\<not> hasCustomPayment req"
    by (auto simp add: hasCustomPayment_def truthy_str_def)
  with h have run: "POST R X d req =
         respond
           (NextResponse_json
              (payment_required_body (x402Config (process_env X)) R (snd (create402Response X reqs)))
              402 [(''X-X402-Protected'', ''true''), (''X-Payment-Required'', ''true'')])
           [ExtractPayment, ParseBody, BuildRequirements, Create402] d"
    using POST_unpaid [OF parsed built, of d] by simp
  show "steps (POST R X d req)
                = [ExtractPayment, ParseBody, BuildRequirements, Create402, Respond 402]"
    by (simp add: run respond_def NextResponse_json_def)
  show "status (returned (POST R X d req)) = 402"
    by (simp add: run respond_def NextResponse_json_def)
next
  assume std: "truthy_str (extractPayment X (headers req))"
  let ?cfg = "x402Config (process_env X)"
  obtain r where step: "verify_step R X ?cfg req reqs = (r, [VerifyStandard])"
    using verify_step_standard [OF std, of R ?cfg reqs]
    by (cases "verify_step R X ?cfg req reqs") simp
  have run: "POST R X d req =
         (case r of
            Inl e \<Rightarrow> internal_error [ExtractPayment, ParseBody, BuildRequirements, VerifyStandard] d
          | Inr verified \<Rightarrow>
              if \<not> verified then
                respond
                  (NextResponse_json
                     (JObj [(''error'', JStr ''Invalid payment - verification failed'')]) 402 [])
                  [ExtractPayment, ParseBody, BuildRequirements, VerifyStandard] d
              else
                deliver R X d req b reqs
                  [ExtractPayment, ParseBody, BuildRequirements, VerifyStandard])"
    using POST_paid [OF parsed built, of d] std step by (simp split: sum.splits)
  from deliver_steps [of R X d req b reqs "[ExtractPayment, ParseBody, BuildRequirements, VerifyStandard]"]
  show "VerifyStandard \<in> set (steps (POST R X d req))"
    by (auto simp add: run respond_def internal_error_def split: sum.splits)
  from deliver_steps [of R X d req b reqs "[ExtractPayment, ParseBody, BuildRequirements, VerifyStandard]"]
  show "VerifyCustom \<notin> set (steps (POST R X d req))"
    by (auto simp add: run respond_def internal_error_def split: sum.splits)
  fix req' :: request
  assume "json_body req' = json_body req
                    \<and> extractPayment X (headers req') = extractPayment X (headers req)"
  with POST_standard_only [OF std, of req' R d] show "POST R X d req' = POST R X d req"
    by blast
next
  assume cust: "\<not> truthy_str (extractPayment X (headers req)) \<and> hasCustomPayment req"
  let ?cfg = "x402Config (process_env X)"
  obtain v where step: "verify_step R X ?cfg req reqs = (Inr v, [VerifyCustom])"
    using cust by (simp add: verify_step_def)
  have run: "POST R X d req =
         (if \<not> v then
                respond
                  (NextResponse_json
                     (JObj [(''error'', JStr ''Invalid payment - verification failed'')]) 402 [])
                  [ExtractPayment, ParseBody, BuildRequirements, VerifyCustom] d
              else
                deliver R X d req b reqs
                  [ExtractPayment, ParseBody, BuildRequirements, VerifyCustom])"
    using POST_paid [OF parsed built, of d] cust step by simp
  from deliver_steps [of R X d req b reqs "[ExtractPayment, ParseBody, BuildRequirements, VerifyCustom]"]
  show "VerifyCustom \<in> set (steps (POST R X d req))"
    by (auto simp add: run respond_def)
  from deliver_steps [of R X d req b reqs "[ExtractPayment, ParseBody, BuildRequirements, VerifyCustom]"]
  show "VerifyStandard \<notin> set (steps (POST R X d req))"
    by (auto simp add: run respond_def)
next
  assume "GenerateTemplate \<in> set (steps (POST R X d req))"
  then show "truthy_str (extractPayment X (headers req)) \<or> hasCustomPayment req"
    by (rule POST_generates_only_paid)
qed

text \<open>
  C4 (amended). Proof of payment is accepted in two forms, a non-empty standard
  header or the complete custom triple: a template is generated only for a request
  that carries one of them. Take a request to either route whose body parses to an
  object and for which the payment requirements are built. If one of the three custom
  headers is missing and there is no standard header, the request is treated as
  unpaid: the payment-required response (402) is returned and nothing is verified. If
  the standard header is present, the standard verification is the one that runs, the
  custom check does not, and the whole outcome is the same for any request with the
  same body and standard header, whatever its custom headers. If only the complete
  triple is present the custom check runs and the standard one does not. A request
  whose body does not parse or is \<open>null\<close> is answered 500 after the parsing step,
  whatever its headers, and so is one for which building the requirements throws.
\<close>

theorem payment_proof_forms:
  "(json_body req = Inr (Some b)
      \<and> createPaymentRequirements X (requirements_request (x402Config (process_env X)) R b)
          = Inr reqs
    \<longrightarrow> ((headers req ''X-Payment-Signature'' = None \<or> headers req ''X-Payment-PublicKey'' = None
            \<or> headers req ''X-Payment-Timestamp'' = None)
          \<and> \<not> truthy_str (extractPayment X (headers req))
          \<and> fst (create402Response X reqs) = 402
          \<longrightarrow> steps (POST R X d req)
                = [ExtractPayment, ParseBody, BuildRequirements, Create402, Respond 402]
              \<and> status (returned (POST R X d req)) = 402)
       \<and> (truthy_str (extractPayment X (headers req))
          \<longrightarrow> VerifyStandard \<in> set (steps (POST R X d req))
              \<and> VerifyCustom \<notin> set (steps (POST R X d req))
              \<and> (\<forall>req'. json_body req' = json_body req
                    \<and> extractPayment X (headers req') = extractPayment X (headers req)
                  \<longrightarrow> POST R X d req' = POST R X d req))
       \<and> (\<not> truthy_str (extractPayment X (headers req)) \<and> hasCustomPayment req
          \<longrightarrow> VerifyCustom \<in> set (steps (POST R X d req))
              \<and> VerifyStandard \<notin> set (steps (POST R X d req)))
       \<and> (GenerateTemplate \<in> set (steps (POST R X d req))
          \<longrightarrow> truthy_str (extractPayment X (headers req)) \<or> hasCustomPayment req))
   \<and> (GenerateTemplate \<in> set (steps (POST R X d req))
      \<longrightarrow> truthy_str (extractPayment X (headers req)) \<or> hasCustomPayment req)
   \<and> ((\<exists>e. json_body req = Inl e) \<or> json_body req = Inr None
      \<longrightarrow> steps (POST R X d req) = [ExtractPayment, ParseBody, Respond 500]
          \<and> status (returned (POST R X d req)) = 500)
   \<and> (json_body req = Inr (Some b)
        \<and> (\<exists>e. createPaymentRequirements X
                  (requirements_request (x402Config (process_env X)) R b) = Inl e)
      \<longrightarrow> steps (POST R X d req) = [ExtractPayment, ParseBody, BuildRequirements, Respond 500]
          \<and> status (returned (POST R X d req)) = 500)"
  (is "(?given \<longrightarrow> ?forms) \<and> ?only_paid \<and> (?unparsed \<longrightarrow> ?stopped) \<and> (?unbuilt \<longrightarrow> ?failed)")
proof -
  have parsed_case: "?given \<longrightarrow> ?forms"
  proof
    assume ?given
    then have parsed: "json_body req = Inr (Some b)"
      and built: "createPaymentRequirements X
                    (requirements_request (x402Config (process_env X)) R b) = Inr reqs"
      by blast+
    show ?forms
      by (rule proof_forms_of_parsed_request [OF parsed built])
  qed
  have only_paid: ?only_paid
  proof
    assume "GenerateTemplate \<in> set (steps (POST R X d req))"
    then show "truthy_str (extractPayment X (headers req)) \<or> hasCustomPayment req"
      by (rule POST_generates_only_paid)
  qed
  have unparsed_case: "?unparsed \<longrightarrow> ?stopped"
  proof
    assume ?unparsed
    then have "POST R X d req = internal_error [ExtractPayment, ParseBody] d"
      using POST_unparsed [of req _ R X d] by blast
    then show ?stopped
      by (simp add: internal_error_def respond_def NextResponse_json_def)
  qed
  have unbuilt_case: "?unbuilt \<longrightarrow> ?failed"
  proof
    assume ?unbuilt
    then have "POST R X d req = internal_error [ExtractPayment, ParseBody, BuildRequirements] d"
      using POST_no_requirements [of req b X R _ d] by blast
    then show ?failed
      by (simp add: internal_error_def respond_def NextResponse_json_def)
  qed
  from parsed_case only_paid unparsed_case unbuilt_case show ?thesis
    by (intro conjI)
qed

text \<open>
  C4 as stated fails: a request with one custom header, no standard header and the
  body \<open>null\<close> is answered 500, not 402.
\<close>

theorem partial_triple_null_body_counterexample:
  "headers (null_body_request [(''X-Payment-Signature'', ''5VERv8NMvzbJMEkV8xnrLkEaWRtSz9CosKDYjCJjBRnb'')])
     ''X-Payment-PublicKey'' = None
   \<and> \<not> truthy_str (extractPayment (services (chain_of paid_tx))
         (headers (null_body_request
            [(''X-Payment-Signature'', ''5VERv8NMvzbJMEkV8xnrLkEaWRtSz9CosKDYjCJjBRnb'')])))
   \<and> status (returned (POST_premium_ui (services (chain_of paid_tx)) 0
        (null_body_request
           [(''X-Payment-Signature'', ''5VERv8NMvzbJMEkV8xnrLkEaWRtSz9CosKDYjCJjBRnb'')]))) = 500"
  by (simp add: null_body_request_def POST_premium_ui_def handler_defs fixture_defs js_defs)


text \<open>
  The amended C4 at work: one custom header alone gets the payment-required response;
  with the standard header and the triple together the custom check does not run, and
  the outcome is that of the standard header alone; a \<open>null\<close> body is answered 500 also
  with the complete triple.
\<close>

theorem payment_proof_forms_witness:
  "steps (POST render_ui (services (chain_of paid_tx)) 0
       (render_request
          [(''X-Payment-Signature'', ''5VERv8NMvzbJMEkV8xnrLkEaWRtSz9CosKDYjCJjBRnb'')]
          (Some ''card'')))
     = [ExtractPayment, ParseBody, BuildRequirements, Create402, Respond 402]
   \<and> VerifyCustom \<notin> set (steps (POST render_ui (services (chain_of paid_tx)) 0
       (render_request ((''X-PAYMENT'', ''valid'') # custom_headers payer) (Some ''card''))))
   \<and> POST render_ui (services (chain_of paid_tx)) 0
       (render_request [(''X-PAYMENT'', ''valid'')] (Some ''card''))
     = POST render_ui (services (chain_of paid_tx)) 0
       (render_request ((''X-PAYMENT'', ''valid'') # custom_headers payer) (Some ''card''))
   \<and> hasCustomPayment (null_body_request (custom_headers payer))
   \<and> status (returned (POST render_ui (services (chain_of paid_tx)) 0
       (null_body_request (custom_headers payer)))) = 500"
proof -
  let ?X = "services (chain_of paid_tx)"
  let ?partial = "render_request
          [(''X-Payment-Signature'', ''5VERv8NMvzbJMEkV8xnrLkEaWRtSz9CosKDYjCJjBRnb'')]
          (Some ''card'')"
  let ?both = "render_request ((''X-PAYMENT'', ''valid'') # custom_headers payer) (Some ''card'')"
  let ?standard = "render_request [(''X-PAYMENT'', ''valid'')] (Some ''card'')"
  let ?null = "null_body_request (custom_headers payer)"
  let ?b = "\<lparr> componentType = Some ''card'', config = None \<rparr>"
  let ?reqs = "JObj [(''maxAmountRequired'', JStr ''500000''),
                     (''resource'', JStr ''https://grid.wtf/api/render-ui''),
                     (''description'', JStr ''Basic UI Component Render - card'')]"
  have parsed: "json_body ?partial = Inr (Some ?b)" "json_body ?both = Inr (Some ?b)"
    "json_body ?standard = json_body ?both"
    by (simp_all add: render_request_def)
  have built: "createPaymentRequirements ?X
        (requirements_request (x402Config (process_env ?X)) render_ui ?b) = Inr ?reqs"
    by (simp add: requirements_request_def render_ui_def price_def
        x402Config_def startsWith_def String_int_def String_nat.simps digit_char_def
        fixture_defs js_defs)
  have partial: "(headers ?partial ''X-Payment-Signature'' = None
        \<or> headers ?partial ''X-Payment-PublicKey'' = None
        \<or> headers ?partial ''X-Payment-Timestamp'' = None)
      \<and> \<not> truthy_str (extractPayment ?X (headers ?partial))
      \<and> fst (create402Response ?X ?reqs) = 402"
    by (simp add: fixture_defs js_defs)
  have both: "truthy_str (extractPayment ?X (headers ?both))"
    "extractPayment ?X (headers ?standard) = extractPayment ?X (headers ?both)"
    by (simp_all add: fixture_defs js_defs)
  have null: "json_body ?null = Inr None"
    by (simp add: null_body_request_def)
  have triple: "hasCustomPayment ?null"
    by (simp add: null_body_request_def hasCustomPayment_def fixture_defs js_defs)
  note forms = payment_proof_forms [where X = ?X and R = render_ui and d = 0 and b = ?b
      and reqs = ?reqs]
  from forms [where req = ?partial] parsed(1) built partial
  have a: "steps (POST render_ui ?X 0 ?partial)
      = [ExtractPayment, ParseBody, BuildRequirements, Create402, Respond 402]"
    by blast
  from forms [where req = ?both] parsed(2) built both(1)
  have b: "VerifyCustom \<notin> set (steps (POST render_ui ?X 0 ?both))"
    and c': "\<forall>req'. json_body req' = json_body ?both
                    \<and> extractPayment ?X (headers req') = extractPayment ?X (headers ?both)
                  \<longrightarrow> POST render_ui ?X 0 req' = POST render_ui ?X 0 ?both"
    by blast+
  from c' parsed(3) both(2) have c: "POST render_ui ?X 0 ?standard = POST render_ui ?X 0 ?both"
    by blast
  from forms [where req = ?null] null
  have e: "status (returned (POST render_ui ?X 0 ?null)) = 500"
    by blast
  from a b c triple e show ?thesis by simp
qed

section \<open>The order of steps, and verification before the template\<close>










section \<open>State between requests\<close>

lemma one_item_draws: "drawn_after (POST_premium_ui (services (chain_of paid_tx)) 0 one_item_request) = 41"
  by (simp add: POST_premium_ui_def premium_ui_def handler_defs one_item_request_def
      generatePremiumUI_def Array_from_def ToLength_def fixture_defs js_defs)

text \<open>
  C7 as stated fails for \<open>/api/premium-ui\<close>: serving the one-item request draws 41
  numbers from the generator, and the response to the same request served next differs
  from the response it gets when served first (the rating of its item is another draw).
\<close>

theorem premium_response_depends_on_earlier_requests_counterexample:
  "drawn_after (POST_premium_ui (services (chain_of paid_tx)) 0 one_item_request) = 41
   \<and> returned (POST_premium_ui (services (chain_of paid_tx))
        (drawn_after (POST_premium_ui (services (chain_of paid_tx)) 0 one_item_request))
        one_item_request)
     \<noteq> returned (POST_premium_ui (services (chain_of paid_tx)) 0 one_item_request)"
proof -
  have after: "drawn_after (POST_premium_ui (services (chain_of paid_tx)) 0 one_item_request) = 41"
    by (rule one_item_draws)
  have upt1: "[0..<Suc 0] = [0]" by simp
  have "returned (POST_premium_ui (services (chain_of paid_tx)) 41 one_item_request)
     \<noteq> returned (POST_premium_ui (services (chain_of paid_tx)) 0 one_item_request)"
    by (simp add: POST_premium_ui_def premium_ui_def handler_defs one_item_request_def
      generatePremiumUI_def Array_from_def ToLength_def fixture_defs js_defs
      advanced_grid_template_def advanced_grid_item_def toFixed1_def String_nat.simps
      digit_char_def)
  with after show ?thesis by simp
qed


lemma advanced_grid_item_shift:
  "advanced_grid_item rnd d = advanced_grid_item (\<lambda>k. rnd (d + k)) 0"
  by (rule ext) (simp add: advanced_grid_item_def)

lemma data_row_shift: "data_row rnd (d + m) = data_row (\<lambda>k. rnd (d + k)) m"
  by (rule ext) (simp add: data_row_def add.assoc)

lemma generatePremiumUI_shift:
  "fst (generatePremiumUI rnd d ct cfg) = fst (generatePremiumUI (\<lambda>k. rnd (d + k)) 0 ct cfg)"
  by (simp add: generatePremiumUI_def Array_from_def Let_def advanced_grid_item_shift [of rnd d]
      data_row_shift [of rnd d])

lemma generatePremiumUI_throws:
  "isl (fst (generatePremiumUI rnd d ct cfg)) = isl (fst (generatePremiumUI rnd' d' ct cfg))"
  by (simp add: generatePremiumUI_def Array_from_def Let_def)

lemma generatePremiumUI_draws: "d \<le> snd (generatePremiumUI rnd d ct cfg)"
  by (simp add: generatePremiumUI_def Array_from_def Let_def)

lemma deliver_by_generated:
  "deliver R X d req b reqs so_far =
     (case fst (generate R (Math_random X) d (String_opt (componentType b)) (config b)) of
        Inl e \<Rightarrow>
          internal_error (so_far @ [GenerateTemplate])
            (snd (generate R (Math_random X) d (String_opt (componentType b)) (config b)))
      | Inr uiResponse \<Rightarrow>
          if truthy_str (extractPayment X (headers req)) then
            (case settlePayment X (String_opt (extractPayment X (headers req))) reqs of
               Inl e \<Rightarrow>
                 internal_error (so_far @ [GenerateTemplate, SettlePayment])
                   (snd (generate R (Math_random X) d (String_opt (componentType b)) (config b)))
             | Inr receipt \<Rightarrow>
                 respond
                   (NextResponse_json (success_body R uiResponse) 200
                      [(''X-X402-Protected'', ''true''), (''X-Payment-Verified'', ''true'')])
                   (so_far @ [GenerateTemplate, SettlePayment])
                   (snd (generate R (Math_random X) d (String_opt (componentType b)) (config b))))
          else
            respond
              (NextResponse_json (success_body R uiResponse) 200
                 [(''X-X402-Protected'', ''true''), (''X-Payment-Verified'', ''true'')])
              (so_far @ [GenerateTemplate])
              (snd (generate R (Math_random X) d (String_opt (componentType b)) (config b))))"
  by (simp add: deliver_def Let_def split: prod.splits sum.splits)

lemma verifyCustomPayment_generator:
  "verifyCustomPayment (X\<lparr> Math_random := rnd \<rparr>) cfg e s k = verifyCustomPayment X cfg e s k"
  by (simp add: verifyCustomPayment_def cong: sum.case_cong option.case_cong if_cong)

lemma verify_step_generator:
  "verify_step R (X\<lparr> Math_random := rnd \<rparr>) cfg req reqs = verify_step R X cfg req reqs"
  by (simp add: verify_step_def verifyCustomPayment_generator
      cong: sum.case_cong option.case_cong if_cong)


lemma POST_stops_or_delivers:
  "(\<exists>r so_far. \<forall>rnd d. POST R (X\<lparr> Math_random := rnd \<rparr>) d req = respond r so_far d)
   \<or> (\<exists>b reqs so_far. \<forall>rnd d.
         POST R (X\<lparr> Math_random := rnd \<rparr>) d req
           = deliver R (X\<lparr> Math_random := rnd \<rparr>) d req b reqs so_far)"
proof (cases "json_body req")
  case (Inl e)
  then have "\<forall>rnd d. POST R (X\<lparr> Math_random := rnd \<rparr>) d req
      = respond (NextResponse_json (JObj [(''error'', JStr ''Internal server error'')]) 500 [])
          [ExtractPayment, ParseBody] d"
    by (simp add: POST_unparsed internal_error_def)
  then show ?thesis by blast
next
  case (Inr parsed)
  show ?thesis
  proof (cases parsed)
    case None
    with Inr have "\<forall>rnd d. POST R (X\<lparr> Math_random := rnd \<rparr>) d req
      = respond (NextResponse_json (JObj [(''error'', JStr ''Internal server error'')]) 500 [])
          [ExtractPayment, ParseBody] d"
      by (simp add: POST_unparsed internal_error_def)
    then show ?thesis by blast
  next
    case (Some b)
    with Inr have parsed: "json_body req = Inr (Some b)" by simp
    let ?cfg = "x402Config (process_env X)"
    show ?thesis
    proof (cases "createPaymentRequirements X (requirements_request ?cfg R b)")
      case (Inl e)
      have "\<forall>rnd d. POST R (X\<lparr> Math_random := rnd \<rparr>) d req
        = respond (NextResponse_json (JObj [(''error'', JStr ''Internal server error'')]) 500 [])
            [ExtractPayment, ParseBody, BuildRequirements] d"
        using parsed Inl
        by (simp add: POST_no_requirements [where b = b and e = e] internal_error_def)
      then show ?thesis by blast
    next
      case built: (Inr reqs)
      show ?thesis
      proof (cases "truthy_str (extractPayment X (headers req)) \<or> hasCustomPayment req")
        case False
        have "\<forall>rnd d. POST R (X\<lparr> Math_random := rnd \<rparr>) d req
          = respond
              (NextResponse_json
                 (payment_required_body ?cfg R (snd (create402Response X reqs)))
                 (fst (create402Response X reqs))
                 [(''X-X402-Protected'', ''true''), (''X-Payment-Required'', ''true'')])
              [ExtractPayment, ParseBody, BuildRequirements, Create402] d"
        proof (intro allI)
          fix rnd d
          show "POST R (X\<lparr> Math_random := rnd \<rparr>) d req
            = respond
              (NextResponse_json
                 (payment_required_body ?cfg R (snd (create402Response X reqs)))
                 (fst (create402Response X reqs))
                 [(''X-X402-Protected'', ''true''), (''X-Payment-Required'', ''true'')])
              [ExtractPayment, ParseBody, BuildRequirements, Create402] d"
            using POST_unpaid [of req b "X\<lparr> Math_random := rnd \<rparr>" R reqs d] parsed built False
            by simp
        qed
        then show ?thesis by blast
      next
        case True
        obtain r vs where step: "verify_step R X ?cfg req reqs = (r, vs)"
          by (cases "verify_step R X ?cfg req reqs")
        have run: "POST R (X\<lparr> Math_random := rnd \<rparr>) d req =
           (case r of
              Inl e \<Rightarrow>
                internal_error ([ExtractPayment, ParseBody, BuildRequirements] @ vs) d
            | Inr verified \<Rightarrow>
                if \<not> verified then
                  respond
                    (NextResponse_json
                       (JObj [(''error'', JStr ''Invalid payment - verification failed'')]) 402 [])
                    ([ExtractPayment, ParseBody, BuildRequirements] @ vs) d
                else
                  deliver R (X\<lparr> Math_random := rnd \<rparr>) d req b reqs
                    ([ExtractPayment, ParseBody, BuildRequirements] @ vs))" for rnd d
          using POST_paid [of req b "X\<lparr> Math_random := rnd \<rparr>" R reqs d] parsed built True step
          by (simp add: verify_step_generator)
        show ?thesis
        proof (cases r)
          case (Inl e)
          have "\<forall>rnd d. POST R (X\<lparr> Math_random := rnd \<rparr>) d req
            = respond (NextResponse_json (JObj [(''error'', JStr ''Internal server error'')]) 500 [])
                ([ExtractPayment, ParseBody, BuildRequirements] @ vs) d"
            by (simp add: run Inl internal_error_def)
          then show ?thesis by blast
        next
          case (Inr ok)
          show ?thesis
          proof (cases ok)
            case False
            have "\<forall>rnd d. POST R (X\<lparr> Math_random := rnd \<rparr>) d req
              = respond
                  (NextResponse_json
                     (JObj [(''error'', JStr ''Invalid payment - verification failed'')]) 402 [])
                  ([ExtractPayment, ParseBody, BuildRequirements] @ vs) d"
              by (simp add: run Inr False)
            then show ?thesis by blast
          next
            case True
            have "\<forall>rnd d. POST R (X\<lparr> Math_random := rnd \<rparr>) d req
              = deliver R (X\<lparr> Math_random := rnd \<rparr>) d req b reqs
                  ([ExtractPayment, ParseBody, BuildRequirements] @ vs)"
              by (simp add: run Inr True)
            then show ?thesis by blast
          qed
        qed
      qed
    qed
  qed
qed

lemma deliver_same_template:
  assumes "fst (generate R rnd d (String_opt (componentType b)) (config b))
           = fst (generate R rnd' d' (String_opt (componentType b)) (config b))"
  shows "returned (deliver R (X\<lparr> Math_random := rnd \<rparr>) d req b reqs so_far)
         = returned (deliver R (X\<lparr> Math_random := rnd' \<rparr>) d' req b reqs so_far)"
    and "steps (deliver R (X\<lparr> Math_random := rnd \<rparr>) d req b reqs so_far)
         = steps (deliver R (X\<lparr> Math_random := rnd' \<rparr>) d' req b reqs so_far)"
  using assms
  by (simp_all add: deliver_by_generated respond_def internal_error_def split: sum.splits)

lemma deliver_same_course:
  assumes "isl (fst (generate R rnd d (String_opt (componentType b)) (config b)))
           = isl (fst (generate R rnd' d' (String_opt (componentType b)) (config b)))"
  shows "status (returned (deliver R (X\<lparr> Math_random := rnd \<rparr>) d req b reqs so_far))
         = status (returned (deliver R (X\<lparr> Math_random := rnd' \<rparr>) d' req b reqs so_far))"
    and "steps (deliver R (X\<lparr> Math_random := rnd \<rparr>) d req b reqs so_far)
         = steps (deliver R (X\<lparr> Math_random := rnd' \<rparr>) d' req b reqs so_far)"
  using assms
  by (auto simp add: deliver_by_generated respond_def internal_error_def NextResponse_json_def
      split: sum.splits)

lemma deliver_draws:
  "drawn_after (deliver R X d req b reqs so_far)
   = snd (generate R (Math_random X) d (String_opt (componentType b)) (config b))"
  by (simp add: deliver_by_generated respond_def internal_error_def split: sum.splits)


lemma same_generator: "X\<lparr> Math_random := Math_random X \<rparr> = X"
  by simp

lemma render_ui_keeps_no_state:
  "returned (POST render_ui X d req) = returned (POST render_ui X d' req)"
  "steps (POST render_ui X d req) = steps (POST render_ui X d' req)"
  "drawn_after (POST render_ui X d req) = d"
proof -
  let ?X = "\<lambda>rnd. X\<lparr> Math_random := rnd \<rparr>"
  have gen: "fst (generate render_ui rnd d ct cfg) = fst (generate render_ui rnd' d' ct cfg)"
    "snd (generate render_ui rnd d ct cfg) = d" for rnd rnd' d d' ct cfg
    by (simp_all add: render_ui_def)
  from POST_stops_or_delivers [of render_ui X req]
  consider (stops) r so_far where
      "\<forall>rnd d. POST render_ui (?X rnd) d req = respond r so_far d"
    | (delivers) b reqs so_far where
      "\<forall>rnd d. POST render_ui (?X rnd) d req = deliver render_ui (?X rnd) d req b reqs so_far"
    by blast
  then have "returned (POST render_ui X d req) = returned (POST render_ui X d' req)
      \<and> steps (POST render_ui X d req) = steps (POST render_ui X d' req)
      \<and> drawn_after (POST render_ui X d req) = d"
  proof cases
    case stops
    from stops [rule_format, of "Math_random X"]
    have "POST render_ui X k req = respond r so_far k" for k
      by simp
    then show ?thesis by (simp add: respond_def)
  next
    case delivers
    from delivers [rule_format, of "Math_random X"]
    have run: "POST render_ui X k req = deliver render_ui X k req b reqs so_far" for k
      by simp
    from deliver_same_template [of render_ui "Math_random X" d b "Math_random X" d' X req reqs so_far]
      deliver_draws [of render_ui X d req b reqs so_far]
    show ?thesis
      by (simp add: run gen)
  qed
  then show "returned (POST render_ui X d req) = returned (POST render_ui X d' req)"
    "steps (POST render_ui X d req) = steps (POST render_ui X d' req)"
    "drawn_after (POST render_ui X d req) = d"
    by blast+
qed

lemma premium_ui_keeps_the_generator:
  "status (returned (POST premium_ui X d req)) = status (returned (POST premium_ui X d' req))"
  "steps (POST premium_ui X d req) = steps (POST premium_ui X d' req)"
  "returned (POST premium_ui X d req)
   = returned (POST premium_ui (X\<lparr> Math_random := \<lambda>k. Math_random X (d + k) \<rparr>) 0 req)"
  "d \<le> drawn_after (POST premium_ui X d req)"
proof -
  let ?X = "\<lambda>rnd. X\<lparr> Math_random := rnd \<rparr>"
  let ?shifted = "\<lambda>k. Math_random X (d + k)"
  have gen: "generate premium_ui = generatePremiumUI"
    by (simp add: premium_ui_def)
  from POST_stops_or_delivers [of premium_ui X req]
  consider (stops) r so_far where
      "\<forall>rnd d. POST premium_ui (?X rnd) d req = respond r so_far d"
    | (delivers) b reqs so_far where
      "\<forall>rnd d. POST premium_ui (?X rnd) d req = deliver premium_ui (?X rnd) d req b reqs so_far"
    by blast
  then have "status (returned (POST premium_ui X d req))
        = status (returned (POST premium_ui X d' req))
      \<and> steps (POST premium_ui X d req) = steps (POST premium_ui X d' req)
      \<and> returned (POST premium_ui X d req) = returned (POST premium_ui (?X ?shifted) 0 req)
      \<and> d \<le> drawn_after (POST premium_ui X d req)"
  proof cases
    case stops
    from stops [rule_format, of "Math_random X"]
    have run: "POST premium_ui X k req = respond r so_far k" for k
      by simp
    from stops [rule_format, of ?shifted 0]
    have run': "POST premium_ui (?X ?shifted) 0 req = respond r so_far 0" .
    show ?thesis by (simp add: run run' respond_def)
  next
    case delivers
    from delivers [rule_format, of "Math_random X"]
    have run: "POST premium_ui X k req = deliver premium_ui X k req b reqs so_far" for k
      by simp
    from delivers [rule_format, of ?shifted 0]
    have run': "POST premium_ui (?X ?shifted) 0 req
        = deliver premium_ui (?X ?shifted) 0 req b reqs so_far" .
    have course: "isl (fst (generate premium_ui (Math_random X) d
                    (String_opt (componentType b)) (config b)))
        = isl (fst (generate premium_ui (Math_random X) d'
                    (String_opt (componentType b)) (config b)))"
      unfolding gen by (rule generatePremiumUI_throws)
    have template: "fst (generate premium_ui (Math_random X) d
                    (String_opt (componentType b)) (config b))
        = fst (generate premium_ui ?shifted 0 (String_opt (componentType b)) (config b))"
      unfolding gen by (rule generatePremiumUI_shift)
    from deliver_same_course [OF course, of X req reqs so_far]
      deliver_same_template(1) [OF template, of X req reqs so_far]
      deliver_draws [of premium_ui X d req b reqs so_far]
      generatePremiumUI_draws [of d "Math_random X" "String_opt (componentType b)" "config b"]
    show ?thesis
      by (simp add: run run' gen)
  qed
  then show "status (returned (POST premium_ui X d req)) = status (returned (POST premium_ui X d' req))"
    "steps (POST premium_ui X d req) = steps (POST premium_ui X d' req)"
    "returned (POST premium_ui X d req)
     = returned (POST premium_ui (X\<lparr> Math_random := \<lambda>k. Math_random X (d + k) \<rparr>) 0 req)"
    "d \<le> drawn_after (POST premium_ui X d req)"
    by blast+
qed

text \<open>
  C7 (amended). The handlers keep no state of their own. For \<open>/api/render-ui\<close> the
  response and the steps are the same whatever was served before, and serving a request
  leaves the generator where it was. For \<open>/api/premium-ui\<close> the status and the steps are
  the same whatever was served before; the response is the one a fresh process would
  give whose generator yields the numbers still to come; and serving a request only
  moves the generator forward.
\<close>

theorem no_state_but_the_generator:
  "returned (POST_render_ui X d req) = returned (POST_render_ui X d' req)
   \<and> steps (POST_render_ui X d req) = steps (POST_render_ui X d' req)
   \<and> drawn_after (POST_render_ui X d req) = d
   \<and> status (returned (POST_premium_ui X d req)) = status (returned (POST_premium_ui X d' req))
   \<and> steps (POST_premium_ui X d req) = steps (POST_premium_ui X d' req)
   \<and> returned (POST_premium_ui X d req)
     = returned (POST_premium_ui (X\<lparr> Math_random := \<lambda>k. Math_random X (d + k) \<rparr>) 0 req)
   \<and> d \<le> drawn_after (POST_premium_ui X d req)"
  unfolding POST_render_ui_def POST_premium_ui_def
  by (intro conjI) (rule render_ui_keeps_no_state premium_ui_keeps_the_generator)+

section \<open>Where the defaults and the guards do hold\<close>

text \<open>
  Away from the inherited keys the fallbacks work as written: an unknown component type
  gets the default template (unless the item count makes \<open>Array.from\<close> throw, which
  happens from \<open>2^32\<close> items on), and \<open>/api/verify-payment\<close> rejects missing fields
  and unknown endpoints without looking anything up.
\<close>

lemma generateUI_default:
  assumes "ct \<notin> {''grid'', ''card'', ''dashboard''}"
    and "ct \<notin> set Object_prototype"
    and "Array_from (or_number (opt_field cfg itemCount) 6) grid_item = Inr items"
  shows "generateUI ct cfg = Inr (Own (grid_template cfg items))"
  using assms by (simp add: generateUI_def js_get_def or_prop_def)

lemma generatePremiumUI_default:
  assumes "ct \<notin> {''advanced-grid'', ''data-table'', ''analytics''}"
    and "ct \<notin> set Object_prototype"
    and "Array_from (or_number (opt_field cfg itemCount) 12) (advanced_grid_item rnd d) = Inr items"
  shows "fst (generatePremiumUI rnd d ct cfg)
         = Inr (Own (advanced_grid_template cfg items))"
  using assms
  by (simp add: generatePremiumUI_def Array_from_def ToLength_def Let_def js_get_def or_prop_def)

lemma generateUI_item_limit:
  "(\<exists>e. generateUI ct cfg = Inl e)
   \<longleftrightarrow> 2 ^ 32 \<le> or_number (opt_field cfg itemCount) 6"
  by (auto simp add: generateUI_def Array_from_def ToLength_def Let_def)

lemma verify_payment_missing_fields:
  assumes "\<not> (truthy_str (signature b) \<and> truthy_str (publicKey b) \<and> truthy_str (endpoint b))"
  shows "POST_verify_payment X \<lparr> verify_json_body = Inr (Some b) \<rparr>
         = (NextResponse_json (JObj [(''error'', JStr ''Missing required fields'')]) 400 [], [])"
  using assms by (simp add: POST_verify_payment_def)

lemma verify_payment_unknown_endpoint:
  assumes "truthy_str (signature b)" "truthy_str (publicKey b)" "endpoint b = Some e" "e \<noteq> []"
    and "e \<notin> {''/api/render-ui'', ''/api/premium-ui'', ''https://grid.wtf/api/x402/v1/new-markets''}"
    and "e \<notin> set Object_prototype"
  shows "POST_verify_payment X \<lparr> verify_json_body = Inr (Some b) \<rparr>
         = (NextResponse_json (JObj [(''error'', JStr ''Invalid endpoint'')]) 400 [], [])"
  using assms
  by (simp add: POST_verify_payment_def x402Config_def js_get_def truthy_price_def
      truthy_str_def String_opt_def)

end
